theory Spec2Isabelle
  imports Complex_Main "HOL-Library.Log_Nat"
begin

section \<open>JavaScript numbers\<close>

text \<open>
  Every numeric value of \<^verbatim>\<open>src/index.ts\<close> is a JavaScript number, an IEEE-754 binary64
  value.  A finite number is \<open>Num x\<close> for the real \<open>x\<close> that it stands for, and the special
  values that the code can produce (by a division by zero, a remainder by zero, a read
  past the end of an array, an overflow) are kept.  Every addition, subtraction,
  multiplication and division rounds its exact result to binary64, to the nearest value
  and to the even one of two nearest.  The sign of zero is not modelled: a zero divisor is
  taken as \<open>+0\<close>, which is what the subtraction of two equal finite numbers gives.
\<close>

datatype number = Num real | PosInfinity | NegInfinity | NaN

text \<open>The nearest integer of a real, the even one of two nearest.\<close>

definition round_half_even :: "real \<Rightarrow> int" where
  "round_half_even y =
     (let f = \<lfloor>y\<rfloor>; d = y - of_int f
      in if d < 1 / 2 then f else if 1 / 2 < d then f + 1 else if even f then f else f + 1)"

text \<open>
  The binary exponent of a real \<open>x\<close> other than 0: the integer \<open>e\<close> with
  \<open>2 ^ e \<le> |x| < 2 ^ (e + 1)\<close>, from the number of bits of the integer part of \<open>|x|\<close>, or
  of \<open>1 / |x|\<close> when \<open>|x| < 1\<close>.
\<close>

definition exponent :: "real \<Rightarrow> int" where
  "exponent x =
     (if 1 \<le> \<bar>x\<bar> then bitlen \<lfloor>\<bar>x\<bar>\<rfloor> - 1 else - bitlen (\<lceil>1 / \<bar>x\<bar>\<rceil> - 1))"

text \<open>
  The binary64 value of a real: the nearest multiple of the unit in the last of its 53
  bits, which is \<open>2 ^ (e - 52)\<close> for the exponent \<open>e\<close> and no less than \<open>2 ^ (- 1074)\<close>; a
  result of magnitude \<open>2 ^ 1024\<close> is an infinity.
\<close>

definition binary64 :: "real \<Rightarrow> number" where
  "binary64 x =
     (let ulp = 2 powi (max (exponent x) (- 1022) - 52);
          r = of_int (round_half_even (x / ulp)) * ulp
      in if 2 ^ 1024 \<le> r then PosInfinity
         else if r \<le> - (2 ^ 1024) then NegInfinity
         else Num r)"

fun js_neg :: "number \<Rightarrow> number" where
  "js_neg (Num a) = Num (- a)"
| "js_neg PosInfinity = NegInfinity"
| "js_neg NegInfinity = PosInfinity"
| "js_neg NaN = NaN"

fun js_add :: "number \<Rightarrow> number \<Rightarrow> number" where
  "js_add (Num a) (Num b) = binary64 (a + b)"
| "js_add NaN _ = NaN"
| "js_add _ NaN = NaN"
| "js_add PosInfinity NegInfinity = NaN"
| "js_add NegInfinity PosInfinity = NaN"
| "js_add PosInfinity _ = PosInfinity"
| "js_add NegInfinity _ = NegInfinity"
| "js_add _ PosInfinity = PosInfinity"
| "js_add _ NegInfinity = NegInfinity"

definition js_sub :: "number \<Rightarrow> number \<Rightarrow> number" where
  "js_sub a b = js_add a (js_neg b)"

fun js_mul :: "number \<Rightarrow> number \<Rightarrow> number" where
  "js_mul (Num a) (Num b) = binary64 (a * b)"
| "js_mul NaN _ = NaN"
| "js_mul _ NaN = NaN"
| "js_mul (Num a) b = (if a = 0 then NaN else if 0 < a then b else js_neg b)"
| "js_mul a (Num b) = (if b = 0 then NaN else if 0 < b then a else js_neg a)"
| "js_mul a b = (if a = b then PosInfinity else NegInfinity)"

fun js_div :: "number \<Rightarrow> number \<Rightarrow> number" where
  "js_div (Num a) (Num b) =
     (if b = 0 then (if a = 0 then NaN else if 0 < a then PosInfinity else NegInfinity)
      else binary64 (a / b))"
| "js_div NaN _ = NaN"
| "js_div _ NaN = NaN"
| "js_div (Num a) _ = Num 0"
| "js_div a (Num b) = (if 0 \<le> b then a else js_neg a)"
| "js_div _ _ = NaN"

text \<open>The integer part of a real, rounding towards zero.\<close>

definition js_trunc :: "real \<Rightarrow> int" where
  "js_trunc x = (if 0 \<le> x then \<lfloor>x\<rfloor> else \<lceil>x\<rceil>)"

text \<open>
  The operator \<^verbatim>\<open>%\<close>: the remainder has the sign of the dividend.  The remainder of two
  binary64 values is a binary64 value, so nothing is rounded.
\<close>

definition js_fmod :: "real \<Rightarrow> real \<Rightarrow> real" where
  "js_fmod a b = a - b * of_int (js_trunc (a / b))"

fun js_rem :: "number \<Rightarrow> number \<Rightarrow> number" where
  "js_rem (Num a) (Num b) = (if b = 0 then NaN else Num (js_fmod a b))"
| "js_rem NaN _ = NaN"
| "js_rem _ NaN = NaN"
| "js_rem (Num a) _ = Num a"
| "js_rem PosInfinity _ = NaN"
| "js_rem NegInfinity _ = NaN"

text \<open>The comparison \<^verbatim>\<open>a > b\<close>: false as soon as one side is \<open>NaN\<close>.\<close>

fun js_gt :: "number \<Rightarrow> number \<Rightarrow> bool" where
  "js_gt (Num a) (Num b) = (b < a)"
| "js_gt NaN _ = False"
| "js_gt _ NaN = False"
| "js_gt _ PosInfinity = False"
| "js_gt PosInfinity _ = True"
| "js_gt NegInfinity _ = False"
| "js_gt _ NegInfinity = True"

text \<open>
  \<^verbatim>\<open>Math.round\<close>: the nearest integer, a tie going up; for a binary64 value it is a
  binary64 value.
\<close>

fun Math_round :: "number \<Rightarrow> number" where
  "Math_round (Num a) = Num (of_int \<lfloor>a + 1 / 2\<rfloor>)"
| "Math_round x = x"

text \<open>
  \<^verbatim>\<open>Number.MIN_VALUE\<close> is the smallest positive binary64 number, 2 to the power -1074
  (about 5e-324); it is not the least number of the type.
\<close>

definition Number_MIN_VALUE :: number where
  "Number_MIN_VALUE = Num (1 / 2 ^ 1074)"

text \<open>
  Reading an array at an index it does not have gives \<^verbatim>\<open>undefined\<close>, here \<open>None\<close>;
  \<^verbatim>\<open>undefined\<close> in arithmetic is \<open>NaN\<close>.
\<close>

definition at_index :: "'a list \<Rightarrow> nat \<Rightarrow> 'a option" where
  "at_index xs i = (if i < length xs then Some (xs ! i) else None)"

fun ToNumber :: "number option \<Rightarrow> number" where
  "ToNumber None = NaN"
| "ToNumber (Some x) = x"

section \<open>Resolution aligned to the output stride\<close>

text \<open>
  \<^verbatim>\<open>function getValidResolution(imageScaleFactor, inputDimension, outputStride) {
    const evenResolution = inputDimension * imageScaleFactor - 1;
    return evenResolution - (evenResolution % outputStride) + 1;
  }\<close>
\<close>

definition getValidResolution :: "number \<Rightarrow> number \<Rightarrow> number \<Rightarrow> number" where
  "getValidResolution imageScaleFactor inputDimension outputStride =
     (let evenResolution = js_sub (js_mul inputDimension imageScaleFactor) (Num 1)
      in js_add (js_sub evenResolution (js_rem evenResolution outputStride)) (Num 1))"

section \<open>Best class of every box\<close>

text \<open>
  \<^verbatim>\<open>function calculateMaxScores(scores, numBoxes, numClasses)\<close>: for every box \<open>i\<close> the
  inner loop runs over the classes \<open>j\<close> with the state \<open>(max, index)\<close>, which starts at
  \<^verbatim>\<open>(Number.MIN_VALUE, -1)\<close> and is replaced when \<^verbatim>\<open>scores[i * numClasses + j] > max\<close>.
  The two arrays \<^verbatim>\<open>maxes\<close> and \<^verbatim>\<open>classes\<close> receive one entry per box, in order.
\<close>

definition class_step :: "number list \<Rightarrow> nat \<Rightarrow> nat \<Rightarrow> nat \<Rightarrow> number \<times> int \<Rightarrow> number \<times> int" where
  "class_step scores numClasses i j state =
     (let score = ToNumber (at_index scores (i * numClasses + j))
      in if js_gt score (fst state) then (score, int j) else state)"

definition class_loop :: "number list \<Rightarrow> nat \<Rightarrow> nat \<Rightarrow> number \<times> int" where
  "class_loop scores numClasses i =
     fold (class_step scores numClasses i) [0..<numClasses] (Number_MIN_VALUE, - 1)"

definition calculateMaxScores :: "number list \<Rightarrow> nat \<Rightarrow> nat \<Rightarrow> number list \<times> int list" where
  "calculateMaxScores scores numBoxes numClasses =
     (map (\<lambda>i. fst (class_loop scores numClasses i)) [0..<numBoxes],
      map (\<lambda>i. snd (class_loop scores numClasses i)) [0..<numBoxes])"

section \<open>Boxes in pixels\<close>

text \<open>
  The entries \<^verbatim>\<open>{bbox, class, score}\<close> that \<^verbatim>\<open>buildDetectedObjects\<close> pushes.  The type
  \<^verbatim>\<open>predictions\<close> is declared in \<^verbatim>\<open>types/global\<close>, which is not among the sources; its
  fields are those of the object literal in the function.  The field \<^verbatim>\<open>class\<close> is
  \<open>class_id\<close> here.  A field read from an array past its end is \<^verbatim>\<open>undefined\<close>.
\<close>

record predictions =
  bbox :: "number list"
  class_id :: "int option"
  score :: "number option"

text \<open>
  The body of the loop of \<^verbatim>\<open>buildDetectedObjects\<close> for the box index \<open>k = indexes[i]\<close>:
  the four entries of the box are read, scaled by the frame's height and width and stored
  as \<open>[minX, minY, maxX - minX, maxY - minY]\<close>.
\<close>

definition detectedObject ::
  "number \<Rightarrow> number \<Rightarrow> number list \<Rightarrow> number list \<Rightarrow> int list \<Rightarrow> nat \<Rightarrow> predictions" where
  "detectedObject width height boxes scores classes k =
     (let bbox0 = at_index boxes (k * 4 + 0);
          bbox1 = at_index boxes (k * 4 + 1);
          bbox2 = at_index boxes (k * 4 + 2);
          bbox3 = at_index boxes (k * 4 + 3);
          minY = js_mul (ToNumber bbox0) height;
          minX = js_mul (ToNumber bbox1) width;
          maxY = js_mul (ToNumber bbox2) height;
          maxX = js_mul (ToNumber bbox3) width
      in \<lparr>bbox = [minX, minY, js_sub maxX minX, js_sub maxY minY],
          class_id = at_index classes k,
          score = at_index scores k\<rparr>)"

fun buildDetectedObjects ::
  "number \<Rightarrow> number \<Rightarrow> number list \<Rightarrow> number list \<Rightarrow> nat list \<Rightarrow> int list \<Rightarrow> predictions list" where
  "buildDetectedObjects width height boxes scores [] classes = []"
| "buildDetectedObjects width height boxes scores (k # indexes) classes =
     detectedObject width height boxes scores classes k
       # buildDetectedObjects width height boxes scores indexes classes"

section \<open>The detection pipeline\<close>

subsection \<open>Parameters and inputs\<close>

text \<open>
  Modelled from the spec: the type \<^verbatim>\<open>Modelparams\<close> of \<^verbatim>\<open>types/global\<close>, which is not
  among the sources.  Its fields are those of \<^verbatim>\<open>defaultParams\<close>.
\<close>

record Modelparams =
  flipHorizontal :: bool
  outputStride :: number
  imageScaleFactor :: number
  maxNumBoxes :: number
  iouThreshold :: number
  scoreThreshold :: number
  modelType :: string

definition defaultParams :: Modelparams where
  "defaultParams =
     \<lparr>flipHorizontal = True, outputStride = Num 16, imageScaleFactor = binary64 (7 / 10),
      maxNumBoxes = Num 20, iouThreshold = Num (1 / 2), scoreThreshold = binary64 (99 / 100),
      modelType = ''MobilenetV2''\<rparr>"

text \<open>
  An image tensor of shape \<open>[height, width, channels]\<close> is a list of rows, a row a list of
  pixels, a pixel the list of its channels.  An input of \<^verbatim>\<open>detect\<close> is a tensor, which
  has a shape, or one of the elements and pixel records, which have the fields
  \<^verbatim>\<open>height\<close> and \<^verbatim>\<open>width\<close>.
\<close>

type_synonym image = "number list list list"

datatype input = Tensor "nat list" image | Element nat nat image

text \<open>
  \<^verbatim>\<open>getInputTensorDimensions\<close> returns \<open>[height, width]\<close>.  An entry that the shape does
  not have is \<^verbatim>\<open>undefined\<close>; both uses of the result are arithmetic, where it is \<open>NaN\<close>.
\<close>

fun getInputTensorDimensions :: "input \<Rightarrow> number \<times> number" where
  "getInputTensorDimensions (Tensor shape img) =
     (ToNumber (map_option (\<lambda>n. Num (real n)) (at_index shape 0)),
      ToNumber (map_option (\<lambda>n. Num (real n)) (at_index shape 1)))"
| "getInputTensorDimensions (Element height width img) = (Num (real height), Num (real width))"

subsection \<open>The tensor library\<close>

text \<open>
  The handle of a loaded graph model: \<^verbatim>\<open>GraphModel.dispose\<close> releases its weights, and the
  handle remembers it.
\<close>

record GraphModel =
  disposed :: bool

text \<open>
  The two tensors that an inference returns, with their shapes and their flat data:
  \<^verbatim>\<open>result[0]\<close> of shape \<open>[1, numBoxes, numClasses]\<close> and \<^verbatim>\<open>result[1]\<close> of shape
  \<open>[1, numBoxes, 1, 4]\<close>.
\<close>

record inference =
  scores_shape :: "nat \<times> nat \<times> nat"
  scores_data :: "number list"
  boxes_shape :: "nat \<times> nat \<times> nat \<times> nat"
  boxes_data :: "number list"

text \<open>
  The operations of \<^verbatim>\<open>@tensorflow/tfjs-node\<close> that the pipeline calls are parameters of the
  model: their code is the library's.  Each of them can throw, and returns \<open>Inl\<close> of what
  it throws: \<^verbatim>\<open>fromPixels\<close> on an input that is not one of the pixel sources,
  \<^verbatim>\<open>resizeBilinear\<close> on a size that is not one, and so on.  \<^verbatim>\<open>nonMaxSuppression\<close> takes the
  2-d tensor of the boxes (the flat data and the two dimensions given to \<^verbatim>\<open>tensor2d\<close>), the
  scores and the three parameters.
\<close>

record 'e tfnode =
  fromPixels :: "input \<Rightarrow> 'e + image"
  resizeBilinear :: "number \<Rightarrow> number \<Rightarrow> image \<Rightarrow> 'e + image"
  loadGraphModel :: "string \<Rightarrow> 'e + GraphModel"
  executeAsync :: "GraphModel \<Rightarrow> image list \<Rightarrow> 'e + inference"
  nonMaxSuppression ::
    "number list \<times> nat \<times> nat \<Rightarrow> number list \<Rightarrow> number \<Rightarrow> number \<Rightarrow> number \<Rightarrow> 'e + nat list"

text \<open>\<^verbatim>\<open>reverse(1)\<close> reverses the axis of the width; \<^verbatim>\<open>expandDims(0)\<close> adds the batch axis.\<close>

definition reverse1 :: "image \<Rightarrow> image" where
  "reverse1 img = map rev img"

definition expandDims0 :: "image \<Rightarrow> image list" where
  "expandDims0 img = [img]"

definition zeros :: "image list" where
  "zeros = [replicate 300 (replicate 300 (replicate 3 (Num 0)))]"

text \<open>
  The tensors that are allocated and not yet disposed, by identifier, and the name of the
  current backend.
\<close>

record world =
  live :: "nat list"
  fresh :: nat
  backend :: string

definition alloc :: "world \<Rightarrow> nat \<times> world" where
  "alloc w = (fresh w, w\<lparr>live := fresh w # live w, fresh := Suc (fresh w)\<rparr>)"

definition dispose_tensor :: "nat \<Rightarrow> world \<Rightarrow> world" where
  "dispose_tensor t w = w\<lparr>live := removeAll t (live w)\<rparr>"

definition setBackend :: "string \<Rightarrow> world \<Rightarrow> world" where
  "setBackend name w = w\<lparr>backend := name\<rparr>"

subsection \<open>The class ObjectDetection\<close>

text \<open>
  The fields of the class.  \<^verbatim>\<open>fps!: number\<close> and \<^verbatim>\<open>model!: tfnode.GraphModel\<close> have no
  initialiser and the constructor assigns neither: until \<^verbatim>\<open>load\<close> runs, both are
  \<^verbatim>\<open>undefined\<close>, here \<open>None\<close>.
\<close>

record ObjectDetection =
  modelPath :: string
  modelParams :: Modelparams
  fps :: "number option"
  model :: "GraphModel option"

text \<open>
  The constructor; the path that it joins from \<^verbatim>\<open>__dirname\<close> is its first argument here.
\<close>

definition new_ObjectDetection :: "string \<Rightarrow> Modelparams \<Rightarrow> ObjectDetection" where
  "new_ObjectDetection path params =
     \<lparr>modelPath = path, modelParams = params, fps = None, model = None\<rparr>"

text \<open>
  What a call can fail with: the \<^verbatim>\<open>TypeError\<close> of the runtime when a property of
  \<^verbatim>\<open>undefined\<close> is read, and what an operation of the library throws.
  \<open>InvalidStateError\<close> is the error that the specification names; no path of the code
  raises it.
\<close>

datatype 'e error = TypeError | InvalidStateError | Thrown 'e

text \<open>
  \<^verbatim>\<open>load\<close>: the field \<^verbatim>\<open>fps\<close> is set to 0 first; the model is loaded and run once on a
  tensor of zeros, which is never disposed; the tensors of the result are disposed.  Any
  error ends the process with status 1, here \<open>Inl 1\<close>.
\<close>

definition load ::
  "'e tfnode \<Rightarrow> ObjectDetection \<Rightarrow> world \<Rightarrow> int + (ObjectDetection \<times> world)" where
  "load tf self w =
     (let self1 = self\<lparr>fps := Some (Num 0)\<rparr>
      in case loadGraphModel tf (''file://'' @ modelPath self1) of
           Inl e \<Rightarrow> Inl 1
         | Inr m \<Rightarrow>
             (let self2 = self1\<lparr>model := Some m\<rparr>;
                  (zerosId, w1) = alloc w
              in case executeAsync tf m zeros of
                   Inl e \<Rightarrow> Inl 1
                 | Inr result \<Rightarrow>
                     (let (scoresId, w2) = alloc w1;
                          (boxesId, w3) = alloc w2;
                          w4 = dispose_tensor boxesId (dispose_tensor scoresId w3)
                      in Inr (self2, w4))))"

text \<open>
  The function given to \<^verbatim>\<open>tidy\<close> in \<^verbatim>\<open>detect\<close>: the value of the tensor \<^verbatim>\<open>batched\<close>, or
  what \<^verbatim>\<open>fromPixels\<close> or \<^verbatim>\<open>resizeBilinear\<close> throws.
\<close>

definition preprocess ::
  "'e tfnode \<Rightarrow> Modelparams \<Rightarrow> input \<Rightarrow> number \<Rightarrow> number \<Rightarrow> 'e + image list" where
  "preprocess tf params inp resizedHeight resizedWidth =
     (case fromPixels tf inp of
        Inl e \<Rightarrow> Inl e
      | Inr imageTensor \<Rightarrow>
          if flipHorizontal params
          then (case resizeBilinear tf resizedHeight resizedWidth (reverse1 imageTensor) of
                  Inl e \<Rightarrow> Inl e
                | Inr resized \<Rightarrow> Inr (expandDims0 resized))
          else (case resizeBilinear tf resizedHeight resizedWidth imageTensor of
                  Inl e \<Rightarrow> Inl e
                | Inr resized \<Rightarrow> Inr (expandDims0 resized)))"

text \<open>
  The function given to \<^verbatim>\<open>then\<close> in \<^verbatim>\<open>detect\<close>, which runs when the inference has
  succeeded.  \<open>batchedId\<close>, \<open>scoresId\<close> and \<open>boxesId\<close> identify the tensor \<^verbatim>\<open>batched\<close> and the
  two tensors of \<^verbatim>\<open>result\<close>; \<open>timeBegin\<close> and \<open>timeEnd\<close> are the two readings of
  \<^verbatim>\<open>Date.now()\<close>, in milliseconds.  An error thrown by the suppression leaves the function
  at once: the backend stays \<open>cpu\<close> and \<^verbatim>\<open>fps\<close> is not assigned.
\<close>

definition on_result ::
  "'e tfnode \<Rightarrow> ObjectDetection \<Rightarrow> world \<Rightarrow> nat \<Rightarrow> nat \<Rightarrow> nat \<Rightarrow> number \<Rightarrow> number \<Rightarrow>
     inference \<Rightarrow> int \<Rightarrow> int \<Rightarrow> ('e error + predictions list) \<times> ObjectDetection \<times> world" where
  "on_result tf self w batchedId scoresId boxesId width height result timeBegin timeEnd =
     (let scores = scores_data result;
          boxes = boxes_data result;
          w1 = dispose_tensor batchedId w;
          w2 = dispose_tensor boxesId (dispose_tensor scoresId w1);
          (maxScores, classes) =
            calculateMaxScores scores (fst (snd (scores_shape result)))
              (snd (snd (scores_shape result)));
          prevBackend = backend w2;
          w3 = setBackend ''cpu'' w2
      in case nonMaxSuppression tf
                (boxes, fst (snd (boxes_shape result)), snd (snd (snd (boxes_shape result))))
                scores (maxNumBoxes (modelParams self)) (iouThreshold (modelParams self))
                (scoreThreshold (modelParams self)) of
           Inl e \<Rightarrow> (Inl (Thrown e), self, w3)
         | Inr indexes \<Rightarrow>
             (let (indexId, w4) = alloc w3;
                  w5 = dispose_tensor indexId w4;
                  w6 = setBackend prevBackend w5;
                  predictions = buildDetectedObjects width height boxes scores indexes classes;
                  elapsed = Num (of_int (timeEnd - timeBegin))
              in (Inr predictions,
                  self\<lparr>fps := Some (Math_round (js_div (Num 1000) elapsed))\<rparr>, w6)))"

text \<open>
  \<^verbatim>\<open>detect\<close>: the result of the promise (\<open>Inl\<close> when it is rejected), the object and the
  tensors afterwards.  The preprocessing runs first, inside \<^verbatim>\<open>tidy\<close>: when it throws,
  \<^verbatim>\<open>tidy\<close> releases what it had allocated and \<^verbatim>\<open>detect\<close> is rejected with the error;
  otherwise \<^verbatim>\<open>tidy\<close> leaves one new tensor, \<^verbatim>\<open>batched\<close>.  There is no test of the state of
  the object: \<^verbatim>\<open>this.model.executeAsync\<close> is a \<^verbatim>\<open>TypeError\<close> when \<^verbatim>\<open>this.model\<close> is
  \<^verbatim>\<open>undefined\<close>, and a rejection of \<^verbatim>\<open>executeAsync\<close> is the rejection of \<^verbatim>\<open>detect\<close>,
  since \<^verbatim>\<open>then\<close> has one argument.
\<close>

definition detect ::
  "'e tfnode \<Rightarrow> ObjectDetection \<Rightarrow> world \<Rightarrow> input \<Rightarrow> int \<Rightarrow> int \<Rightarrow>
     ('e error + predictions list) \<times> ObjectDetection \<times> world" where
  "detect tf self w inp timeBegin timeEnd =
     (let (height, width) = getInputTensorDimensions inp;
          resizedHeight =
            getValidResolution (imageScaleFactor (modelParams self)) height
              (outputStride (modelParams self));
          resizedWidth =
            getValidResolution (imageScaleFactor (modelParams self)) width
              (outputStride (modelParams self))
      in case preprocess tf (modelParams self) inp resizedHeight resizedWidth of
           Inl e \<Rightarrow> (Inl (Thrown e), self, w)
         | Inr batched \<Rightarrow>
             (let (batchedId, w1) = alloc w
              in case model self of
                   None \<Rightarrow> (Inl TypeError, self, w1)
                 | Some m \<Rightarrow>
                     (case executeAsync tf m batched of
                        Inl e \<Rightarrow> (Inl (Thrown e), self, w1)
                      | Inr result \<Rightarrow>
                          (let (scoresId, w2) = alloc w1;
                               (boxesId, w3) = alloc w2
                           in on_result tf self w3 batchedId scoresId boxesId width height
                                result timeBegin timeEnd))))"

definition getFPS :: "ObjectDetection \<Rightarrow> number option" where
  "getFPS self = fps self"

text \<open>\<^verbatim>\<open>dispose\<close>: the model is disposed when there is one; the field keeps the handle.\<close>

definition dispose :: "ObjectDetection \<Rightarrow> ObjectDetection" where
  "dispose self =
     (case model self of
        None \<Rightarrow> self
      | Some m \<Rightarrow> self\<lparr>model := Some (m\<lparr>disposed := True\<rparr>)\<rparr>)"

subsection \<open>Names for two values inside detect\<close>

text \<open>
  The result of the preprocessing in \<^verbatim>\<open>detect\<close>: the tensor that \<^verbatim>\<open>detect\<close> gives to
  \<^verbatim>\<open>executeAsync\<close>, or what the preprocessing throws.
\<close>

definition batched_tensor :: "'e tfnode \<Rightarrow> ObjectDetection \<Rightarrow> input \<Rightarrow> 'e + image list" where
  "batched_tensor tf self inp =
     preprocess tf (modelParams self) inp
       (getValidResolution (imageScaleFactor (modelParams self))
          (fst (getInputTensorDimensions inp)) (outputStride (modelParams self)))
       (getValidResolution (imageScaleFactor (modelParams self))
          (snd (getInputTensorDimensions inp)) (outputStride (modelParams self)))"

text \<open>The call of \<^verbatim>\<open>nonMaxSuppression\<close> that \<^verbatim>\<open>detect\<close> makes on the result of the inference.\<close>

definition suppression :: "'e tfnode \<Rightarrow> ObjectDetection \<Rightarrow> inference \<Rightarrow> 'e + nat list" where
  "suppression tf self result =
     nonMaxSuppression tf
       (boxes_data result, fst (snd (boxes_shape result)), snd (snd (snd (boxes_shape result))))
       (scores_data result) (maxNumBoxes (modelParams self)) (iouThreshold (modelParams self))
       (scoreThreshold (modelParams self))"

text \<open>The identifiers that are live are below the next one to be given.\<close>

definition world_ok :: "world \<Rightarrow> bool" where
  "world_ok w = list_all (\<lambda>t. t < fresh w) (live w)"

section \<open>Suppression, from the specification\<close>

text \<open>
  Modelled from the spec: \<^verbatim>\<open>tfnode.image.nonMaxSuppression\<close> is an operation of the
  TensorFlow.js library and its code is not among the sources; \<^verbatim>\<open>detect\<close> only calls it.
  The definitions below follow section 4.3 of the specification and its glossary: a box is
  \<open>(minY, minX, maxY, maxX)\<close>; the intersection over union of two boxes is the ratio of
  the area they share to the area of their union (0 when the union has no area); the
  indexes are taken by descending score, an index of equal score in the order of the
  input; an index whose score is below the score threshold is left out; an index is
  accepted when its box exceeds the overlap threshold with no box accepted before, until
  \<open>max_output_size\<close> indexes are accepted.  The parameters \<open>maxOutputSize\<close>,
  \<open>iouThreshold\<close> and \<open>scoreThreshold\<close> of the specification are \<open>max_output_size\<close>,
  \<open>iou_threshold\<close> and \<open>score_threshold\<close> here.
\<close>

type_synonym box = "real \<times> real \<times> real \<times> real"

definition box_area :: "box \<Rightarrow> real" where
  "box_area b = (case b of (minY, minX, maxY, maxX) \<Rightarrow> (maxY - minY) * (maxX - minX))"

definition intersection_area :: "box \<Rightarrow> box \<Rightarrow> real" where
  "intersection_area a b =
     (case a of (minY1, minX1, maxY1, maxX1) \<Rightarrow>
      case b of (minY2, minX2, maxY2, maxX2) \<Rightarrow>
        max 0 (min maxY1 maxY2 - max minY1 minY2) * max 0 (min maxX1 maxX2 - max minX1 minX2))"

definition iou :: "box \<Rightarrow> box \<Rightarrow> real" where
  "iou a b =
     (let shared = intersection_area a b;
          union = box_area a + box_area b - shared
      in if union = 0 then 0 else shared / union)"

definition by_descending_score :: "real list \<Rightarrow> nat list" where
  "by_descending_score scores = sort_key (\<lambda>i. - (scores ! i)) [0..<length scores]"

fun accept :: "box list \<Rightarrow> real \<Rightarrow> nat \<Rightarrow> nat list \<Rightarrow> nat list \<Rightarrow> nat list" where
  "accept boxes iou_threshold max_output_size accepted [] = accepted"
| "accept boxes iou_threshold max_output_size accepted (c # candidates) =
     (if max_output_size \<le> length accepted then accepted
      else if list_all (\<lambda>a. \<not> iou_threshold < iou (boxes ! a) (boxes ! c)) accepted
      then accept boxes iou_threshold max_output_size (accepted @ [c]) candidates
      else accept boxes iou_threshold max_output_size accepted candidates)"

definition suppress :: "box list \<Rightarrow> real list \<Rightarrow> nat \<Rightarrow> real \<Rightarrow> real \<Rightarrow> nat list" where
  "suppress boxes scores max_output_size iou_threshold score_threshold =
     accept boxes iou_threshold max_output_size []
       (filter (\<lambda>i. \<not> scores ! i < score_threshold) (by_descending_score scores))"

text \<open>
  The order in which the indexes are considered, as a relation: \<open>a\<close> comes before \<open>b\<close> when
  its score is higher, or equal with \<open>a\<close> the earlier index.
\<close>

definition precedes :: "real list \<Rightarrow> nat \<Rightarrow> nat \<Rightarrow> bool" where
  "precedes scores a b \<longleftrightarrow> scores ! b < scores ! a \<or> (scores ! a = scores ! b \<and> a < b)"

text \<open>
  The clauses of section 4.3 as a property of a list of indexes: every index in it is an
  index of a score that is not below the score threshold; the list is in the order in
  which the indexes are considered; and an index whose score is not below the threshold
  is in the list exactly when fewer than \<open>max_output_size\<close> indexes of the list come before
  it and its box exceeds the overlap threshold with the box of none of them.
\<close>

definition greedy_selection ::
  "box list \<Rightarrow> real list \<Rightarrow> nat \<Rightarrow> real \<Rightarrow> real \<Rightarrow> nat list \<Rightarrow> bool" where
  "greedy_selection boxes scores max_output_size iou_threshold score_threshold selected \<longleftrightarrow>
     (\<forall>i\<in>set selected. i < length scores \<and> \<not> scores ! i < score_threshold)
     \<and> sorted_wrt (precedes scores) selected
     \<and> (\<forall>i<length scores. \<not> scores ! i < score_threshold \<longrightarrow>
           (i \<in> set selected \<longleftrightarrow>
              length (filter (\<lambda>a. precedes scores a i) selected) < max_output_size
              \<and> (\<forall>a\<in>set selected. precedes scores a i \<longrightarrow>
                    \<not> iou_threshold < iou (boxes ! a) (boxes ! i))))"

section \<open>The inversion of a mirrored box, from the specification\<close>

text \<open>
  The specification speaks of un-mirroring the boxes of a mirrored input.  In a frame of
  width \<open>W\<close> the mirror image of the box \<open>[x, y, w, h]\<close> is \<open>[W - (x + w), y, w, h]\<close>.  No
  function of the source computes it; it is defined here to be compared with what
  \<^verbatim>\<open>detect\<close> returns.
\<close>

fun spec_unmirrored_bbox :: "number \<Rightarrow> number list \<Rightarrow> number list" where
  "spec_unmirrored_bbox W [x, y, w, h] = [js_sub W (js_add x w), y, w, h]"
| "spec_unmirrored_bbox W b = b"

section \<open>A small library and a small frame\<close>

text \<open>
  A stand-in for the library, for evaluating the pipeline: \<^verbatim>\<open>fromPixels\<close> throws on a
  tensor, as the library does, and gives the image of any other input; resizing returns
  the image as it is; loading gives a fresh handle; an inference on a disposed handle
  throws and any other returns one box of one class; and the suppression selects the
  box 0.  The frame declares a height of 200 and a width of 100; its four pixels of one
  channel stand for its content.
\<close>

definition inference0 :: inference where
  "inference0 =
     \<lparr>scores_shape = (1, 1, 1), scores_data = [Num (255 / 256)],
      boxes_shape = (1, 1, 1, 4), boxes_data = [Num 0, Num 0, Num 1, Num (1 / 4)]\<rparr>"

definition tf0 :: "string tfnode" where
  "tf0 =
     \<lparr>fromPixels =
        (\<lambda>inp. case inp of Tensor shape img \<Rightarrow> Inl ''pixels'' | Element h w img \<Rightarrow> Inr img),
      resizeBilinear = (\<lambda>h w img. Inr img),
      loadGraphModel = (\<lambda>path. Inr \<lparr>disposed = False\<rparr>),
      executeAsync = (\<lambda>m batch. if disposed m then Inl ''disposed'' else Inr inference0),
      nonMaxSuppression = (\<lambda>boxes scores max_output_size iou_threshold score_threshold. Inr [0])\<rparr>"

text \<open>The same library with an inference that always throws.\<close>

definition tf_rejecting :: "string tfnode" where
  "tf_rejecting = tf0\<lparr>executeAsync := (\<lambda>m batch. Inl ''rejected'')\<rparr>"

text \<open>The same library with an inference that answers on a disposed handle as well.\<close>

definition tf_lenient :: "string tfnode" where
  "tf_lenient = tf0\<lparr>executeAsync := (\<lambda>m batch. Inr inference0)\<rparr>"

text \<open>A tensor given as the input, which \<^verbatim>\<open>fromPixels\<close> refuses.\<close>

definition tensor0 :: input where
  "tensor0 = Tensor [2, 2, 1] [[[Num 1], [Num 2]], [[Num 3], [Num 4]]]"

definition frame0 :: input where
  "frame0 = Element 200 100 [[[Num 1], [Num 2]], [[Num 3], [Num 4]]]"

definition world0 :: world where
  "world0 = \<lparr>live = [], fresh = 0, backend = ''tensorflow''\<rparr>"

definition unloaded0 :: ObjectDetection where
  "unloaded0 = new_ObjectDetection ''jsonmodels/model.json'' defaultParams"

definition ready0 :: ObjectDetection where
  "ready0 = unloaded0\<lparr>fps := Some (Num 0), model := Some \<lparr>disposed = False\<rparr>\<rparr>"

text \<open>Four boxes and their scores, for evaluating the suppression of the specification.\<close>

definition boxes4 :: "box list" where
  "boxes4 = [(0, 0, 1, 1), (0, 0, 1, 4 / 5), (0, 1 / 2, 1, 3 / 2), (2, 2, 3, 3)]"

definition scores4 :: "real list" where
  "scores4 = [4 / 5, 9 / 10, 7 / 10, 1 / 10]"

text \<open>Three boxes that share no area, and their scores.\<close>

definition boxes3 :: "box list" where
  "boxes3 = [(0, 0, 1, 1), (2, 2, 3, 3), (4, 4, 5, 5)]"

definition scores3 :: "real list" where
  "scores3 = [9 / 10, 8 / 10, 7 / 10]"

section \<open>Facts about the numbers\<close>

text \<open>
  The rounding of a given real is computed by unfolding its definition; an integer of
  magnitude up to \<open>2 ^ 53\<close> is its own binary64 value; and the binary64 value of a real of
  magnitude below \<open>2 ^ 53\<close> lies between any two integers that the real lies between.
\<close>

lemmas binary64_eval =
  binary64_def exponent_def round_half_even_def compute_bitlen Let_def

lemma round_half_even_of_int [simp]: "round_half_even (of_int k) = k"
  by (simp add: round_half_even_def)

lemma round_half_even_le:
  assumes "y \<le> of_int k"
  shows "round_half_even y \<le> k"
proof (cases "y = of_int k")
  case True
  then show ?thesis by simp
next
  case False
  with assms have "y < of_int k" by simp
  then have "\<lfloor>y\<rfloor> < k" by (simp add: floor_less_iff)
  then show ?thesis
    by (simp add: round_half_even_def Let_def)
qed

lemma round_half_even_ge:
  assumes "of_int k \<le> y"
  shows "k \<le> round_half_even y"
proof -
  from assms have "k \<le> \<lfloor>y\<rfloor>" by (simp add: le_floor_iff)
  then show ?thesis
    by (simp add: round_half_even_def Let_def)
qed

lemma exponent_of_int:
  assumes "n \<noteq> 0"
  shows "0 \<le> exponent (of_int n)"
    and "2 ^ nat (exponent (of_int n)) \<le> \<bar>n\<bar>"
    and "\<bar>n\<bar> < 2 ^ nat (exponent (of_int n) + 1)"
proof -
  from assms have pos: "0 < \<bar>n\<bar>" by simp
  have "1 \<le> \<bar>real_of_int n\<bar>"
    using pos by (metis int_one_le_iff_zero_less of_int_1_le_iff of_int_abs)
  moreover have "\<lfloor>\<bar>real_of_int n\<bar>\<rfloor> = \<bar>n\<bar>"
    by (metis floor_of_int of_int_abs)
  ultimately have e: "exponent (of_int n) = bitlen \<bar>n\<bar> - 1"
    by (simp add: exponent_def)
  from pos have "1 \<le> bitlen \<bar>n\<bar>"
    using bitlen_eq_zero_iff [of "\<bar>n\<bar>"] bitlen_nonneg [of "\<bar>n\<bar>"] by linarith
  with e show "0 \<le> exponent (of_int n)" by simp
  from bitlen_bounds [OF pos] e
  show "2 ^ nat (exponent (of_int n)) \<le> \<bar>n\<bar>" "\<bar>n\<bar> < 2 ^ nat (exponent (of_int n) + 1)"
    by simp_all
qed

lemma binary64_of_int:
  assumes "\<bar>n\<bar> \<le> 2 ^ 53"
  shows "binary64 (of_int n) = Num (of_int n)"
proof (cases "n = 0")
  case True
  have "round_half_even 0 = 0"
    by (simp add: round_half_even_def)
  with True show ?thesis
    by (simp add: binary64_def Let_def)
next
  case False
  define e where "e = exponent (of_int n)"
  from exponent_of_int [OF False] have e0: "0 \<le> e" and lo: "2 ^ nat e \<le> \<bar>n\<bar>"
    and hi: "\<bar>n\<bar> < 2 ^ nat (e + 1)"
    by (simp_all add: e_def)
  from lo assms have le: "(2::int) ^ nat e \<le> 2 ^ 53" by linarith
  have "nat e \<le> 53"
    by (rule power_le_imp_le_exp [where a = "2::int"], simp, rule le)
  with e0 have e53: "e \<le> 53" by simp
  have m: "max e (- 1022) = e" using e0 by simp
  have "\<exists>k::int. real_of_int n / 2 powi (e - 52) = of_int k"
  proof (cases "e \<le> 52")
    case True
    then have "real_of_int n / 2 powi (e - 52) = of_int (n * 2 ^ nat (52 - e))"
      by (simp add: power_int_def field_simps)
    then show ?thesis ..
  next
    case False
    with e53 have e: "e = 53" by simp
    with lo assms have "\<bar>n\<bar> = 2 ^ 53" by simp
    then have "n = 2 ^ 53 \<or> n = - (2 ^ 53)" by linarith
    then have "real_of_int n / 2 powi (e - 52) = of_int (n div 2)"
      using e by auto
    then show ?thesis ..
  qed
  then obtain k :: int where k: "real_of_int n / 2 powi (e - 52) = of_int k" ..
  then have r: "of_int k * 2 powi (e - 52) = real_of_int n"
    by (simp add: field_simps)
  have "\<bar>real_of_int n\<bar> \<le> 2 ^ 53"
    using assms by (metis of_int_abs of_int_le_iff of_int_numeral of_int_power)
  moreover have "(2::real) ^ 53 < 2 ^ 1024" by simp
  ultimately have small: "\<not> 2 ^ 1024 \<le> real_of_int n" "\<not> real_of_int n \<le> - (2 ^ 1024)"
    by linarith+
  show ?thesis
    unfolding binary64_def Let_def e_def [symmetric] m k round_half_even_of_int r
    using small by simp
qed

lemma exponent_le_52:
  assumes "\<bar>x\<bar> < 2 ^ 53"
  shows "exponent x \<le> 52"
proof (cases "1 \<le> \<bar>x\<bar>")
  case True
  from assms have "\<lfloor>\<bar>x\<bar>\<rfloor> < 2 ^ 53"
    by (simp add: floor_less_iff)
  then have "bitlen \<lfloor>\<bar>x\<bar>\<rfloor> \<le> 53"
    by (simp add: bitlen_le_iff_power)
  with True show ?thesis
    by (simp add: exponent_def)
next
  case False
  then show ?thesis
    using bitlen_nonneg [of "\<lceil>1 / \<bar>x\<bar>\<rceil> - 1"] by (simp add: exponent_def)
qed

lemma binary64_between:
  fixes a b :: int
  assumes "of_int a \<le> x" and "x \<le> of_int b" and "\<bar>x\<bar> < 2 ^ 53"
  shows "\<exists>r. binary64 x = Num r \<and> of_int a \<le> r \<and> r \<le> of_int b"
proof -
  define q where "q = max (exponent x) (- 1022) - 52"
  define N :: int where "N = 2 ^ nat (- q)"
  define k where "k = round_half_even (x / 2 powi q)"
  have "q \<le> 0"
    using exponent_le_52 [OF assms(3)] by (simp add: q_def)
  then have ulp: "2 powi q = 1 / real_of_int N"
    by (simp add: power_int_def N_def inverse_eq_divide power_one_over)
  have N: "0 < N" by (simp add: N_def)
  have scaled: "x / 2 powi q = x * of_int N"
    by (simp add: ulp)
  have between: "real_of_int c \<le> real_of_int k * 2 powi q" if "real_of_int c \<le> x" for c :: int
  proof -
    from that N have "real_of_int (c * N) \<le> x * of_int N"
      by (simp add: mult_right_mono)
    then have "c * N \<le> k"
      unfolding k_def scaled by (rule round_half_even_ge)
    then have "real_of_int (c * N) \<le> of_int k" by linarith
    with N show ?thesis
      by (simp add: ulp field_simps)
  qed
  have below: "real_of_int k * 2 powi q \<le> real_of_int c" if "x \<le> real_of_int c" for c :: int
  proof -
    from that N have "x * of_int N \<le> real_of_int (c * N)"
      by (simp add: mult_right_mono)
    then have "k \<le> c * N"
      unfolding k_def scaled by (rule round_half_even_le)
    then have "of_int k \<le> real_of_int (c * N)" by linarith
    with N show ?thesis
      by (simp add: ulp field_simps)
  qed
  from assms(3) have "of_int (- (2 ^ 53)) \<le> x" "x \<le> of_int (2 ^ 53)"
    by (simp_all add: abs_less_iff)
  from between [OF this(1)] below [OF this(2)]
  have "- (2 ^ 53) \<le> real_of_int k * 2 powi q" "real_of_int k * 2 powi q \<le> 2 ^ 53"
    by simp_all
  moreover have "(2::real) ^ 53 < 2 ^ 1024" by simp
  ultimately have "\<not> 2 ^ 1024 \<le> real_of_int k * 2 powi q"
    "\<not> real_of_int k * 2 powi q \<le> - (2 ^ 1024)"
    by linarith+
  then have "binary64 x = Num (of_int k * 2 powi q)"
    by (simp add: binary64_def Let_def q_def k_def)
  with between [OF assms(1)] below [OF assms(2)] show ?thesis
    by simp
qed

lemma js_mul_of_int:
  "a * b = of_int n \<Longrightarrow> \<bar>n\<bar> \<le> 2 ^ 53 \<Longrightarrow> js_mul (Num a) (Num b) = Num (of_int n)"
  by (simp add: binary64_of_int)

lemma js_sub_of_int:
  "\<bar>k - n\<bar> \<le> 2 ^ 53 \<Longrightarrow> js_sub (Num (of_int k)) (Num (of_int n)) = Num (of_int (k - n))"
  using binary64_of_int [of "k - n"] by (simp add: js_sub_def)

lemma js_fmod_multiple:
  assumes "1 \<le> stride"
  shows "\<exists>q::int. e - js_fmod e (real stride) = of_int (int stride * q)
           \<and> (0 \<le> e \<longrightarrow> 0 \<le> int stride * q \<and> real_of_int (int stride * q) \<le> e)
           \<and> (e < 0 \<longrightarrow> int stride * q \<le> 0 \<and> e \<le> real_of_int (int stride * q))"
proof -
  let ?q = "js_trunc (e / real stride)"
  have pos: "0 < real stride"
    using assms by simp
  have eq: "e - js_fmod e (real stride) = of_int (int stride * ?q)"
    by (simp add: js_fmod_def)
  have nonneg: "0 \<le> int stride * ?q \<and> real_of_int (int stride * ?q) \<le> e" if "0 \<le> e"
  proof -
    have q: "?q = \<lfloor>e / real stride\<rfloor>"
      using that pos by (simp add: js_trunc_def)
    have "0 \<le> e / real stride"
      using that pos by simp
    hence "0 \<le> ?q"
      unfolding q by simp
    hence a: "0 \<le> int stride * ?q"
      by simp
    have "of_int ?q \<le> e / real stride"
      unfolding q by (rule of_int_floor_le)
    hence "real stride * of_int ?q \<le> e"
      using pos by (simp add: pos_le_divide_eq mult.commute)
    with a show ?thesis
      by simp
  qed
  have neg: "int stride * ?q \<le> 0 \<and> e \<le> real_of_int (int stride * ?q)" if "e < 0"
  proof -
    have lt: "e / real stride < 0"
      using that pos by (simp add: divide_neg_pos)
    have q: "?q = \<lceil>e / real stride\<rceil>"
      using lt by (simp add: js_trunc_def)
    have "?q \<le> 0"
      unfolding q using lt by (simp add: ceiling_le_iff)
    hence a: "int stride * ?q \<le> 0"
      by (simp add: mult_nonneg_nonpos)
    have "e / real stride \<le> of_int ?q"
      unfolding q by (rule le_of_int_ceiling)
    hence "e \<le> real stride * of_int ?q"
      using pos by (simp add: pos_divide_le_eq mult.commute)
    with a show ?thesis
      by simp
  qed
  from eq nonneg neg show ?thesis
    by blast
qed

section \<open>Facts about the pipeline\<close>

lemma detect_preprocess_thrown:
  "batched_tensor tf self inp = Inl e \<Longrightarrow>
   detect tf self w inp t0 t1 = (Inl (Thrown e), self, w)"
  by (simp add: detect_def batched_tensor_def Let_def case_prod_beta)

lemma detect_unloaded:
  "batched_tensor tf self inp = Inr batched \<Longrightarrow> model self = None \<Longrightarrow>
   detect tf self w inp t0 t1 = (Inl TypeError, self, snd (alloc w))"
  by (simp add: detect_def batched_tensor_def Let_def case_prod_beta)

lemma detect_rejected:
  "batched_tensor tf self inp = Inr batched \<Longrightarrow> model self = Some m \<Longrightarrow>
   executeAsync tf m batched = Inl e \<Longrightarrow>
   detect tf self w inp t0 t1 = (Inl (Thrown e), self, snd (alloc w))"
  by (simp add: detect_def batched_tensor_def Let_def case_prod_beta)

lemma detect_suppression_thrown:
  assumes "batched_tensor tf self inp = Inr batched"
    and "model self = Some m"
    and "executeAsync tf m batched = Inr result"
    and "suppression tf self result = Inl e"
  shows "fst (detect tf self w inp t0 t1) = Inl (Thrown e)"
    and "fst (snd (detect tf self w inp t0 t1)) = self"
  using assms
  by (simp_all add: detect_def on_result_def batched_tensor_def suppression_def Let_def
      case_prod_beta)

lemma detect_success_value:
  assumes "batched_tensor tf self inp = Inr batched"
    and "model self = Some m"
    and "executeAsync tf m batched = Inr result"
    and "suppression tf self result = Inr indexes"
  shows "fst (detect tf self w inp t0 t1) =
           Inr (buildDetectedObjects (snd (getInputTensorDimensions inp))
                  (fst (getInputTensorDimensions inp)) (boxes_data result) (scores_data result)
                  indexes
                  (snd (calculateMaxScores (scores_data result) (fst (snd (scores_shape result)))
                          (snd (snd (scores_shape result))))))"
    and "fst (snd (detect tf self w inp t0 t1)) =
           self\<lparr>fps := Some (Math_round (js_div (Num 1000) (Num (of_int (t1 - t0)))))\<rparr>"
  using assms
  by (simp_all add: detect_def on_result_def batched_tensor_def suppression_def Let_def
      case_prod_beta del: js_div.simps(1) Math_round.simps(1))

lemma detect_failure_keeps_object:
  assumes "fst (detect tf self w inp t0 t1) = Inl e"
  shows "fst (snd (detect tf self w inp t0 t1)) = self"
proof (cases "batched_tensor tf self inp")
  case (Inl thrown)
  then show ?thesis by (simp add: detect_preprocess_thrown)
next
  case batched: (Inr batched)
  show ?thesis
  proof (cases "model self")
    case None
    with batched show ?thesis by (simp add: detect_unloaded)
  next
    case (Some m)
    show ?thesis
    proof (cases "executeAsync tf m batched")
      case (Inl thrown)
      with batched Some show ?thesis by (simp add: detect_rejected)
    next
      case result: (Inr result)
      show ?thesis
      proof (cases "suppression tf self result")
        case (Inl thrown)
        with batched Some result show ?thesis by (simp add: detect_suppression_thrown)
      next
        case (Inr indexes)
        with batched Some result assms show ?thesis by (simp add: detect_success_value)
      qed
    qed
  qed
qed

text \<open>
  A successful \<^verbatim>\<open>detect\<close> leaves the tensors and the backend as they were: the tensor
  \<^verbatim>\<open>batched\<close>, the two tensors of the result and the tensor of the indexes are disposed.
\<close>

lemma removeAll_fresh: "list_all (\<lambda>t. t < (n::nat)) xs \<Longrightarrow> n \<le> k \<Longrightarrow> removeAll k xs = xs"
  by (induction xs) auto

lemma detect_success_world:
  assumes "batched_tensor tf self inp = Inr batched"
    and "model self = Some m"
    and "executeAsync tf m batched = Inr result"
    and "suppression tf self result = Inr indexes"
    and "world_ok w"
  shows "snd (snd (detect tf self w inp t0 t1)) = w\<lparr>fresh := fresh w + 4\<rparr>"
proof -
  have "removeAll (fresh w + k) (live w) = live w" for k
    using assms(5) by (simp add: world_ok_def removeAll_fresh)
  from this [of 0] this [of 1] this [of 2] this [of 3] show ?thesis
    using assms(1-4)
    by (simp add: detect_def on_result_def batched_tensor_def suppression_def Let_def alloc_def
        dispose_tensor_def setBackend_def case_prod_beta numeral_3_eq_3)
qed

lemma bbox_detectedObject:
  "bbox (detectedObject width height boxes scores classes k) =
     [js_mul (ToNumber (at_index boxes (k * 4 + 1))) width,
      js_mul (ToNumber (at_index boxes (k * 4 + 0))) height,
      js_sub (js_mul (ToNumber (at_index boxes (k * 4 + 3))) width)
        (js_mul (ToNumber (at_index boxes (k * 4 + 1))) width),
      js_sub (js_mul (ToNumber (at_index boxes (k * 4 + 2))) height)
        (js_mul (ToNumber (at_index boxes (k * 4 + 0))) height)]"
  by (simp add: detectedObject_def Let_def)

lemma bbox_buildDetectedObjects:
  "map bbox (buildDetectedObjects width height boxes scores indexes classes) =
     map (\<lambda>k. [js_mul (ToNumber (at_index boxes (k * 4 + 1))) width,
                js_mul (ToNumber (at_index boxes (k * 4 + 0))) height,
                js_sub (js_mul (ToNumber (at_index boxes (k * 4 + 3))) width)
                  (js_mul (ToNumber (at_index boxes (k * 4 + 1))) width),
                js_sub (js_mul (ToNumber (at_index boxes (k * 4 + 2))) height)
                  (js_mul (ToNumber (at_index boxes (k * 4 + 0))) height)]) indexes"
  by (induction indexes) (simp_all add: bbox_detectedObject)

lemma fixture_facts:
  "model ready0 = Some \<lparr>disposed = False\<rparr>"
  "model unloaded0 = None"
  "flipHorizontal (modelParams ready0)"
  "batched_tensor tf0 ready0 frame0 = Inr [[[[Num 2], [Num 1]], [[Num 4], [Num 3]]]]"
  "batched_tensor tf0 unloaded0 frame0 = Inr [[[[Num 2], [Num 1]], [[Num 4], [Num 3]]]]"
  "batched_tensor tf0 unloaded0 tensor0 = Inl ''pixels''"
  "executeAsync tf0 \<lparr>disposed = False\<rparr> b = Inr inference0"
  "suppression tf0 self inference0 = Inr [0]"
  "world_ok world0"
  by (simp_all add: ready0_def unloaded0_def new_ObjectDetection_def defaultParams_def tf0_def
      suppression_def world_ok_def world0_def batched_tensor_def preprocess_def frame0_def
      tensor0_def reverse1_def expandDims0_def)

lemma load_sets_fps:
  "load tf self w = Inr (self', w') \<Longrightarrow> fps self' = Some (Num 0)"
  by (auto simp add: load_def Let_def case_prod_beta split: sum.splits)

lemma load_fixture:
  "load tf0 unloaded0 world0 = Inr (ready0, \<lparr>live = [0], fresh = 3, backend = ''tensorflow''\<rparr>)"
  by (simp add: load_def tf0_def unloaded0_def ready0_def new_ObjectDetection_def world0_def
      alloc_def dispose_tensor_def Let_def)

lemma detect_never_InvalidStateError:
  "fst (detect tf self w inp t0 t1) \<noteq> Inl InvalidStateError"
  by (simp add: detect_def on_result_def Let_def case_prod_beta split: option.splits sum.splits)

lemma batched_tensor_dispose:
  "batched_tensor tf (dispose self) inp = batched_tensor tf self inp"
  by (simp add: batched_tensor_def dispose_def split: option.splits)

lemma suppression_dispose:
  "suppression tf (dispose self) result = suppression tf self result"
  by (simp add: suppression_def dispose_def split: option.splits)

lemma model_dispose:
  "model self = Some m \<Longrightarrow> model (dispose self) = Some (m\<lparr>disposed := True\<rparr>)"
  by (simp add: dispose_def)

lemma objects_fixture:
  "buildDetectedObjects (snd (getInputTensorDimensions frame0))
     (fst (getInputTensorDimensions frame0)) (boxes_data inference0) (scores_data inference0) [0]
     (snd (calculateMaxScores (scores_data inference0) (fst (snd (scores_shape inference0)))
             (snd (snd (scores_shape inference0))))) =
     [\<lparr>bbox = [Num 0, Num 0, Num 25, Num 200], class_id = Some 0,
        score = Some (Num (255 / 256))\<rparr>]"
  by (simp add: frame0_def inference0_def detectedObject_def at_index_def js_sub_def
      calculateMaxScores_def class_loop_def class_step_def Number_MIN_VALUE_def binary64_eval)

lemma detect_fixture:
  "fst (detect tf0 ready0 world0 frame0 t0 t1) =
     Inr [\<lparr>bbox = [Num 0, Num 0, Num 25, Num 200], class_id = Some 0,
            score = Some (Num (255 / 256))\<rparr>]"
  using detect_success_value(1) [of tf0 ready0 frame0 _ "\<lparr>disposed = False\<rparr>" inference0 "[0]"
      world0 t0 t1] objects_fixture
  by (simp add: fixture_facts)

lemma batched_tensor_flipped:
  assumes "flipHorizontal (modelParams self)"
  shows "batched_tensor tf self inp = Inr batched \<longleftrightarrow>
           (\<exists>imageTensor resized.
               fromPixels tf inp = Inr imageTensor
               \<and> resizeBilinear tf
                    (getValidResolution (imageScaleFactor (modelParams self))
                       (fst (getInputTensorDimensions inp)) (outputStride (modelParams self)))
                    (getValidResolution (imageScaleFactor (modelParams self))
                       (snd (getInputTensorDimensions inp)) (outputStride (modelParams self)))
                    (reverse1 imageTensor) = Inr resized
               \<and> batched = expandDims0 resized)"
  using assms by (auto simp add: batched_tensor_def preprocess_def split: sum.splits)

lemma fixture_variants:
  "batched_tensor tf_rejecting ready0 frame0 = Inr [[[[Num 2], [Num 1]], [[Num 4], [Num 3]]]]"
  "batched_tensor tf_lenient ready0 frame0 = Inr [[[[Num 2], [Num 1]], [[Num 4], [Num 3]]]]"
  "executeAsync tf_rejecting m b = Inl ''rejected''"
  "executeAsync tf_lenient m b = Inr inference0"
  "executeAsync tf0 \<lparr>disposed = True\<rparr> b = Inl ''disposed''"
  "suppression tf_lenient self inference0 = Inr [0]"
  by (simp_all add: ready0_def unloaded0_def new_ObjectDetection_def defaultParams_def tf0_def
      tf_rejecting_def tf_lenient_def suppression_def batched_tensor_def preprocess_def
      frame0_def reverse1_def expandDims0_def)

section \<open>Facts about the best class\<close>

text \<open>
  The loop over the classes of a box whose entries are finite numbers \<open>f 0, f 1, ...\<close>,
  started at \<open>(v, -1)\<close>: either no entry exceeds \<open>v\<close> and the state is unchanged, or the
  state is the greatest entry and the first index that has it.  With \<open>v\<close> the value of
  \<^verbatim>\<open>Number.MIN_VALUE\<close> this gives the two lemmas on \<^verbatim>\<open>calculateMaxScores\<close> that follow:
  the maximum and its first class for a box that has a score above \<^verbatim>\<open>Number.MIN_VALUE\<close>,
  and \<^verbatim>\<open>(Number.MIN_VALUE, -1)\<close> for a box that has none.
\<close>

lemma class_step_finite:
  assumes "at_index scores (i * numClasses + j) = Some (Num r)"
  shows "class_step scores numClasses i j (Num m, idx) =
           (if m < r then (Num r, int j) else (Num m, idx))"
  using assms by (simp add: class_step_def)

lemma class_loop_scan:
  assumes "\<forall>j<n. at_index scores (i * numClasses + j) = Some (Num (f j))"
  shows "\<exists>m idx. fold (class_step scores numClasses i) [0..<n] (Num v, - 1) = (Num m, idx)
           \<and> (idx = - 1 \<and> m = v \<and> (\<forall>j<n. f j \<le> v)
               \<or> (\<exists>k<n. idx = int k \<and> m = f k \<and> v < f k
                      \<and> (\<forall>j<n. f j \<le> f k) \<and> (\<forall>j<k. f j < f k)))"
  using assms
proof (induction n)
  case 0
  show ?case by simp
next
  case (Suc n)
  from Suc.prems have prev: "\<forall>j<n. at_index scores (i * numClasses + j) = Some (Num (f j))"
    and here: "at_index scores (i * numClasses + n) = Some (Num (f n))"
    by simp_all
  from Suc.IH [OF prev] obtain m idx
    where scan: "fold (class_step scores numClasses i) [0..<n] (Num v, - 1) = (Num m, idx)"
      and inv: "idx = - 1 \<and> m = v \<and> (\<forall>j<n. f j \<le> v)
               \<or> (\<exists>k<n. idx = int k \<and> m = f k \<and> v < f k
                      \<and> (\<forall>j<n. f j \<le> f k) \<and> (\<forall>j<k. f j < f k))"
    by blast
  have step: "fold (class_step scores numClasses i) [0..<Suc n] (Num v, - 1) =
      (if m < f n then (Num (f n), int n) else (Num m, idx))"
    using scan here by (simp add: class_step_finite)
  show ?case
  proof (cases "m < f n")
    case True
    from inv have "v \<le> m" "\<forall>j<n. f j \<le> m"
      by auto
    with True have "v < f n \<and> (\<forall>j<Suc n. f j \<le> f n) \<and> (\<forall>j<n. f j < f n)"
      by (auto simp: less_Suc_eq intro: le_less_trans less_imp_le)
    then show ?thesis
      using step True by auto
  next
    case False
    from inv show ?thesis
    proof
      assume "idx = - 1 \<and> m = v \<and> (\<forall>j<n. f j \<le> v)"
      then show ?thesis
        using step False by (auto simp: less_Suc_eq)
    next
      assume "\<exists>k<n. idx = int k \<and> m = f k \<and> v < f k
                      \<and> (\<forall>j<n. f j \<le> f k) \<and> (\<forall>j<k. f j < f k)"
      then obtain k where "k < n" "idx = int k" "m = f k" "v < f k"
        "\<forall>j<n. f j \<le> f k" "\<forall>j<k. f j < f k"
        by blast
      then show ?thesis
        using step False by (auto simp: less_Suc_eq intro!: exI [of _ k])
    qed
  qed
qed

lemma calculateMaxScores_box:
  assumes "i < numBoxes"
  shows "fst (calculateMaxScores scores numBoxes numClasses) ! i =
           fst (class_loop scores numClasses i)"
    and "snd (calculateMaxScores scores numBoxes numClasses) ! i =
           snd (class_loop scores numClasses i)"
  using assms by (simp_all add: calculateMaxScores_def)

lemma calculateMaxScores_finite_box:
  assumes "i < numBoxes"
    and "\<forall>j<numClasses. at_index scores (i * numClasses + j) = Some (Num (f j))"
    and "\<exists>j<numClasses. 1 / 2 ^ 1074 < f j"
  shows "\<exists>k<numClasses.
           fst (calculateMaxScores scores numBoxes numClasses) ! i = Num (f k)
           \<and> snd (calculateMaxScores scores numBoxes numClasses) ! i = int k
           \<and> (\<forall>j<numClasses. f j \<le> f k) \<and> (\<forall>j<k. f j < f k)"
proof -
  from class_loop_scan [OF assms(2), of "1 / 2 ^ 1074"] obtain m idx
    where scan: "class_loop scores numClasses i = (Num m, idx)"
      and inv: "idx = - 1 \<and> m = 1 / 2 ^ 1074 \<and> (\<forall>j<numClasses. f j \<le> 1 / 2 ^ 1074)
               \<or> (\<exists>k<numClasses. idx = int k \<and> m = f k \<and> 1 / 2 ^ 1074 < f k
                      \<and> (\<forall>j<numClasses. f j \<le> f k) \<and> (\<forall>j<k. f j < f k))"
    unfolding class_loop_def Number_MIN_VALUE_def by blast
  from assms(3) obtain j where "j < numClasses" "1 / 2 ^ 1074 < f j"
    by blast
  then have "\<not> (\<forall>j<numClasses. f j \<le> 1 / 2 ^ 1074)"
    by (auto simp: not_le)
  with inv obtain k where "k < numClasses" "idx = int k" "m = f k"
    "\<forall>j<numClasses. f j \<le> f k" "\<forall>j<k. f j < f k"
    by blast
  then show ?thesis
    using scan assms(1) by (auto simp: calculateMaxScores_box)
qed

lemma calculateMaxScores_small_box:
  assumes "i < numBoxes"
    and "\<forall>j<numClasses. at_index scores (i * numClasses + j) = Some (Num (f j))"
    and "\<forall>j<numClasses. f j \<le> 1 / 2 ^ 1074"
  shows "fst (calculateMaxScores scores numBoxes numClasses) ! i = Number_MIN_VALUE
         \<and> snd (calculateMaxScores scores numBoxes numClasses) ! i = - 1"
proof -
  from class_loop_scan [OF assms(2), of "1 / 2 ^ 1074"] obtain m idx
    where scan: "class_loop scores numClasses i = (Num m, idx)"
      and inv: "idx = - 1 \<and> m = 1 / 2 ^ 1074 \<and> (\<forall>j<numClasses. f j \<le> 1 / 2 ^ 1074)
               \<or> (\<exists>k<numClasses. idx = int k \<and> m = f k \<and> 1 / 2 ^ 1074 < f k
                      \<and> (\<forall>j<numClasses. f j \<le> f k) \<and> (\<forall>j<k. f j < f k))"
    unfolding class_loop_def Number_MIN_VALUE_def by blast
  from inv assms(3) have "idx = - 1 \<and> m = 1 / 2 ^ 1074"
    by (auto simp: not_less [symmetric])
  then show ?thesis
    using scan assms(1) by (simp add: calculateMaxScores_box Number_MIN_VALUE_def)
qed

lemma calculateMaxScores_example:
  "calculateMaxScores
     [Num (1 / 10), Num (9 / 10), Num (2 / 10), Num (5 / 10), Num (5 / 10), Num (3 / 10)] 2 3 =
     ([Num (9 / 10), Num (5 / 10)], [1, 0])"
  by (simp add: calculateMaxScores_def class_loop_def class_step_def at_index_def
      Number_MIN_VALUE_def upt_rec Let_def)

section \<open>Facts about the suppression of the specification\<close>

lemma iou_commute: "iou a b = iou b a"
  by (cases a; cases b) (simp add: iou_def intersection_area_def box_area_def Let_def
      min.commute max.commute add.commute)

lemma accept_length:
  "length accepted \<le> m \<Longrightarrow> length (accept boxes t m accepted candidates) \<le> m"
  by (induction candidates arbitrary: accepted) auto

lemma accept_keeps: "set accepted \<subseteq> set (accept boxes t m accepted candidates)"
proof (induction candidates arbitrary: accepted)
  case Nil
  show ?case by simp
next
  case (Cons c candidates)
  from Cons [of accepted] Cons [of "accepted @ [c]"] show ?case
    by auto
qed

lemma accept_subset:
  "set (accept boxes t m accepted candidates) \<subseteq> set accepted \<union> set candidates"
proof (induction candidates arbitrary: accepted)
  case Nil
  show ?case by simp
next
  case (Cons c candidates)
  from Cons [of accepted] Cons [of "accepted @ [c]"] show ?case
    by auto
qed

lemma accept_sorted_wrt:
  "sorted_wrt Q (accepted @ candidates) \<Longrightarrow> sorted_wrt Q (accept boxes t m accepted candidates)"
proof (induction candidates arbitrary: accepted)
  case Nil
  then show ?case by simp
next
  case (Cons c candidates)
  from Cons.prems have "sorted_wrt Q accepted" "sorted_wrt Q ((accepted @ [c]) @ candidates)"
    "sorted_wrt Q (accepted @ candidates)"
    by (auto simp: sorted_wrt_append)
  with Cons.IH [of accepted] Cons.IH [of "accepted @ [c]"] show ?case
    by simp
qed

lemma accept_distinct:
  "distinct (accepted @ candidates) \<Longrightarrow> distinct (accept boxes t m accepted candidates)"
proof (induction candidates arbitrary: accepted)
  case Nil
  then show ?case by simp
next
  case (Cons c candidates)
  from Cons.prems have "distinct accepted" "distinct ((accepted @ [c]) @ candidates)"
    "distinct (accepted @ candidates)"
    by auto
  with Cons.IH [of accepted] Cons.IH [of "accepted @ [c]"] show ?case
    by simp
qed

lemma accept_no_overlap:
  "sorted_wrt (\<lambda>a c. \<not> t < iou (boxes ! a) (boxes ! c)) accepted \<Longrightarrow>
   sorted_wrt (\<lambda>a c. \<not> t < iou (boxes ! a) (boxes ! c)) (accept boxes t m accepted candidates)"
proof (induction candidates arbitrary: accepted)
  case Nil
  then show ?case by simp
next
  case (Cons c candidates)
  show ?case
  proof (cases "m \<le> length accepted")
    case True
    with Cons.prems show ?thesis by simp
  next
    case False
    show ?thesis
    proof (cases "list_all (\<lambda>a. \<not> t < iou (boxes ! a) (boxes ! c)) accepted")
      case True
      with Cons.prems
      have "sorted_wrt (\<lambda>a c. \<not> t < iou (boxes ! a) (boxes ! c)) (accepted @ [c])"
        by (simp add: sorted_wrt_append list_all_iff)
      from Cons.IH [OF this] True False show ?thesis by simp
    next
      case rejected: False
      from Cons.IH [OF Cons.prems] rejected False show ?thesis by simp
    qed
  qed
qed

lemma by_descending_score_set: "set (by_descending_score scores) = {0..<length scores}"
  by (simp add: by_descending_score_def)

lemma by_descending_score_distinct: "distinct (by_descending_score scores)"
  by (simp add: by_descending_score_def)

lemma by_descending_score_sorted:
  "sorted_wrt (\<lambda>i j. scores ! j \<le> scores ! i) (by_descending_score scores)"
proof -
  have "sorted (map (\<lambda>i. - (scores ! i)) (by_descending_score scores))"
    unfolding by_descending_score_def by (rule sorted_sort_key)
  then show ?thesis
    by (simp add: sorted_map)
qed

lemma by_descending_score_two:
  "by_descending_score [s0, s1] = (if s1 \<le> s0 then [0, 1] else [1, 0])"
  by (simp add: by_descending_score_def upt_rec)

lemma suppress_candidates:
  "set (suppress boxes scores m t st) \<subseteq> {i. i < length scores \<and> \<not> scores ! i < st}"
proof -
  have "set (suppress boxes scores m t st) \<subseteq>
      set (filter (\<lambda>i. \<not> scores ! i < st) (by_descending_score scores))"
    unfolding suppress_def
    using accept_subset [of boxes t m "[]"
        "filter (\<lambda>i. \<not> scores ! i < st) (by_descending_score scores)"]
    by simp
  then show ?thesis
    by (auto simp: by_descending_score_set)
qed

lemma suppress_sorted:
  "sorted_wrt (\<lambda>i j. scores ! j \<le> scores ! i) (suppress boxes scores m t st)"
  unfolding suppress_def
  by (rule accept_sorted_wrt) (simp add: sorted_wrt_filter by_descending_score_sorted)

lemma suppress_distinct: "distinct (suppress boxes scores m t st)"
  unfolding suppress_def
  by (rule accept_distinct) (simp add: by_descending_score_distinct)

lemma suppress_length: "length (suppress boxes scores m t st) \<le> m"
  unfolding suppress_def by (rule accept_length) simp

lemma suppress_no_overlap:
  assumes "p < length (suppress boxes scores m t st)"
    and "q < length (suppress boxes scores m t st)"
    and "p \<noteq> q"
  shows "\<not> t < iou (boxes ! (suppress boxes scores m t st ! p))
                    (boxes ! (suppress boxes scores m t st ! q))"
proof -
  let ?R = "suppress boxes scores m t st"
  have sorted: "sorted_wrt (\<lambda>a c. \<not> t < iou (boxes ! a) (boxes ! c)) ?R"
    unfolding suppress_def by (rule accept_no_overlap) simp
  show ?thesis
  proof (cases "p < q")
    case True
    from sorted_wrt_nth_less [OF sorted True assms(2)] show ?thesis .
  next
    case False
    with assms(3) have "q < p" by simp
    from sorted_wrt_nth_less [OF sorted this assms(1)]
    have "\<not> t < iou (boxes ! (?R ! q)) (boxes ! (?R ! p))" .
    then show ?thesis
      by (simp add: iou_commute)
  qed
qed

lemma suppress_two_overlapping:
  assumes "s0 \<noteq> s1" and "\<not> s0 < st" and "\<not> s1 < st" and "t < iou b0 b1" and "1 \<le> m"
  shows "suppress [b0, b1] [s0, s1] m t st = [if s1 < s0 then 0 else 1]"
  using assms
  by (auto simp add: suppress_def by_descending_score_two iou_commute)

lemma suppress_two_apart:
  assumes "\<not> s0 < st" and "\<not> s1 < st" and "iou b0 b1 < t" and "2 \<le> m"
  shows "set (suppress [b0, b1] [s0, s1] m t st) = {0, 1}"
  using assms
  by (auto simp add: suppress_def by_descending_score_two iou_commute)

lemma precedes_irrefl: "\<not> precedes scores a a"
  by (simp add: precedes_def)

lemma precedes_asym: "precedes scores a b \<Longrightarrow> \<not> precedes scores b a"
  by (auto simp add: precedes_def)

lemma precedes_trans: "precedes scores a b \<Longrightarrow> precedes scores b c \<Longrightarrow> precedes scores a c"
  by (auto simp add: precedes_def)

lemma precedes_sorted_distinct: "sorted_wrt (precedes scores) xs \<Longrightarrow> distinct xs"
  by (induction xs) (auto simp add: precedes_irrefl)

lemma precedes_sorted_unique:
  "sorted_wrt (precedes scores) xs \<Longrightarrow> sorted_wrt (precedes scores) ys \<Longrightarrow>
   set xs = set ys \<Longrightarrow> xs = ys"
proof (induction xs arbitrary: ys)
  case Nil
  then show ?case by simp
next
  case (Cons x xs)
  from Cons.prems(3) obtain y ys' where ys: "ys = y # ys'"
    by (cases ys) auto
  have head: "x = y"
  proof (rule ccontr)
    assume differ: "x \<noteq> y"
    from Cons.prems(3) ys differ have "x \<in> set ys'" and "y \<in> set xs"
      by auto
    with Cons.prems(1,2) ys have "precedes scores y x" and "precedes scores x y"
      by auto
    then show False
      using precedes_asym by blast
  qed
  from Cons.prems(1) have "x \<notin> set xs"
    by (auto simp add: precedes_irrefl)
  moreover from Cons.prems(2) ys have "y \<notin> set ys'"
    by (auto simp add: precedes_irrefl)
  ultimately have "set xs = set ys'"
    using Cons.prems(3) ys head by auto
  with Cons.IH [of ys'] Cons.prems(1,2) ys head show ?case
    by simp
qed

lemma insort_key_precedes:
  assumes "sorted_wrt (precedes scores) ys" and "\<forall>y\<in>set ys. x < y"
  shows "sorted_wrt (precedes scores) (insort_key (\<lambda>i. - (scores ! i)) x ys)"
  using assms
proof (induction ys)
  case Nil
  then show ?case by simp
next
  case (Cons y ys)
  show ?case
  proof (cases "- (scores ! x) \<le> - (scores ! y)")
    case True
    have "precedes scores x z" if "z \<in> set (y # ys)" for z
    proof -
      have "scores ! z \<le> scores ! y"
        using that Cons.prems(1) by (auto simp add: precedes_def)
      moreover have "x < z"
        using that Cons.prems(2) by auto
      ultimately show ?thesis
        using True by (auto simp add: precedes_def)
    qed
    with True Cons.prems(1) show ?thesis
      by simp
  next
    case False
    hence "precedes scores y x"
      by (simp add: precedes_def)
    moreover have "sorted_wrt (precedes scores) (insort_key (\<lambda>i. - (scores ! i)) x ys)"
      using Cons by simp
    ultimately show ?thesis
      using False Cons.prems(1) by (auto simp add: set_insort_key)
  qed
qed

lemma sort_key_precedes:
  "sorted_wrt (<) xs \<Longrightarrow> sorted_wrt (precedes scores) (sort_key (\<lambda>i. - (scores ! i)) xs)"
proof (induction xs)
  case Nil
  show ?case by simp
next
  case (Cons x xs)
  then show ?case
    by (simp add: insort_key_precedes)
qed

lemma by_descending_score_precedes:
  "sorted_wrt (precedes scores) (by_descending_score scores)"
  unfolding by_descending_score_def
  by (rule sort_key_precedes) simp

lemma accept_prefix:
  "\<exists>rest. accept boxes t m accepted candidates = accepted @ rest \<and> set rest \<subseteq> set candidates"
proof (induction candidates arbitrary: accepted)
  case Nil
  show ?case by simp
next
  case (Cons c candidates)
  from Cons [of accepted] obtain r1 where
    r1: "accept boxes t m accepted candidates = accepted @ r1" "set r1 \<subseteq> set candidates"
    by blast
  from Cons [of "accepted @ [c]"] obtain r2 where
    r2: "accept boxes t m (accepted @ [c]) candidates = (accepted @ [c]) @ r2"
      "set r2 \<subseteq> set candidates"
    by blast
  have "accept boxes t m (accepted @ [c]) candidates = accepted @ (c # r2)"
    using r2(1) by simp
  moreover have "set (c # r2) \<subseteq> set (c # candidates)"
    using r2(2) by auto
  moreover have "set r1 \<subseteq> set (c # candidates)"
    using r1(2) by auto
  moreover have "set [] \<subseteq> set (c # candidates)"
    by simp
  ultimately show ?case
    using r1(1) by (cases "m \<le> length accepted") (auto simp del: append_assoc)
qed

lemma accept_selects:
  assumes "sorted_wrt (precedes scores) (accepted @ candidates)"
    and "c \<in> set candidates"
  shows "c \<in> set (accept boxes t m accepted candidates) \<longleftrightarrow>
           length (filter (\<lambda>a. precedes scores a c) (accept boxes t m accepted candidates)) < m
           \<and> (\<forall>a\<in>set (accept boxes t m accepted candidates).
                 precedes scores a c \<longrightarrow> \<not> t < iou (boxes ! a) (boxes ! c))"
  using assms
proof (induction candidates arbitrary: accepted)
  case Nil
  then show ?case by simp
next
  case (Cons x candidates)
  have before: "precedes scores a z" if "a \<in> set accepted" "z \<in> set (x # candidates)" for a z
    using Cons.prems(1) that by (auto simp add: sorted_wrt_append)
  have after: "precedes scores x z" if "z \<in> set candidates" for z
    using Cons.prems(1) that by (auto simp add: sorted_wrt_append)
  have fresh: "c \<notin> set accepted"
    using before [of c c] Cons.prems(2) precedes_irrefl by blast
  have x_fresh: "x \<notin> set candidates"
    using after [of x] precedes_irrefl by blast
  show ?case
  proof (cases "m \<le> length accepted")
    case True
    have "filter (\<lambda>a. precedes scores a c) accepted = accepted"
      using before [OF _ Cons.prems(2)] by (simp add: filter_id_conv)
    with True fresh show ?thesis
      by simp
  next
    case room: False
    show ?thesis
    proof (cases "list_all (\<lambda>a. \<not> t < iou (boxes ! a) (boxes ! x)) accepted")
      case True
      then have step: "accept boxes t m accepted (x # candidates) =
          accept boxes t m (accepted @ [x]) candidates"
        using room by simp
      show ?thesis
      proof (cases "c = x")
        case same: True
        obtain rest where rest: "accept boxes t m (accepted @ [x]) candidates =
            (accepted @ [x]) @ rest" "set rest \<subseteq> set candidates"
          using accept_prefix by blast
        have none: "\<not> precedes scores a x" if "a \<in> set rest" for a
          using after [of a] that rest(2) precedes_asym by blast
        have "filter (\<lambda>a. precedes scores a x) accepted = accepted"
          using before [of _ x] by (simp add: filter_id_conv)
        moreover have "filter (\<lambda>a. precedes scores a x) rest = []"
          using none by (simp add: filter_empty_conv)
        ultimately have count: "filter (\<lambda>a. precedes scores a x)
            (accept boxes t m (accepted @ [x]) candidates) = accepted"
          by (simp add: rest(1) precedes_irrefl)
        have "\<not> t < iou (boxes ! a) (boxes ! x)"
          if "a \<in> set (accept boxes t m (accepted @ [x]) candidates)" "precedes scores a x" for a
        proof -
          have "a \<in> set accepted"
            using that none rest(1) precedes_irrefl by auto
          with True show ?thesis
            by (simp add: list_all_iff)
        qed
        moreover have "x \<in> set (accept boxes t m (accepted @ [x]) candidates)"
          by (simp add: rest(1))
        ultimately show ?thesis
          using same step count room by auto
      next
        case False
        with Cons.prems(2) have "c \<in> set candidates"
          by simp
        moreover from Cons.prems(1) have "sorted_wrt (precedes scores) ((accepted @ [x]) @ candidates)"
          by simp
        ultimately show ?thesis
          using Cons.IH [of "accepted @ [x]"] step by simp
      qed
    next
      case rejected: False
      then have step: "accept boxes t m accepted (x # candidates) =
          accept boxes t m accepted candidates"
        using room by simp
      from Cons.prems(1) have sorted: "sorted_wrt (precedes scores) (accepted @ candidates)"
        by (auto simp add: sorted_wrt_append)
      show ?thesis
      proof (cases "c = x")
        case same: True
        from rejected obtain a where a: "a \<in> set accepted" "t < iou (boxes ! a) (boxes ! x)"
          by (auto simp add: list_all_iff)
        have "a \<in> set (accept boxes t m accepted candidates)"
          using accept_keeps [of accepted boxes t m candidates] a(1) by auto
        moreover have "precedes scores a x"
          using before [of a x] a(1) by simp
        moreover have "x \<notin> set (accept boxes t m accepted candidates)"
          using accept_subset [of boxes t m accepted candidates] fresh x_fresh same by auto
        ultimately show ?thesis
          using same step a(2) by auto
      next
        case False
        with Cons.prems(2) have "c \<in> set candidates"
          by simp
        then show ?thesis
          using Cons.IH [OF sorted] step by simp
      qed
    qed
  qed
qed

lemma suppress_precedes:
  "sorted_wrt (precedes scores) (suppress boxes scores m t st)"
  unfolding suppress_def
  by (rule accept_sorted_wrt) (simp add: sorted_wrt_filter by_descending_score_precedes)

lemma suppress_selects:
  assumes "i < length scores" and "\<not> scores ! i < st"
  shows "i \<in> set (suppress boxes scores m t st) \<longleftrightarrow>
           length (filter (\<lambda>a. precedes scores a i) (suppress boxes scores m t st)) < m
           \<and> (\<forall>a\<in>set (suppress boxes scores m t st).
                 precedes scores a i \<longrightarrow> \<not> t < iou (boxes ! a) (boxes ! i))"
  unfolding suppress_def
proof (rule accept_selects)
  show "sorted_wrt (precedes scores)
      ([] @ filter (\<lambda>i. \<not> scores ! i < st) (by_descending_score scores))"
    by (simp add: sorted_wrt_filter by_descending_score_precedes)
  show "i \<in> set (filter (\<lambda>i. \<not> scores ! i < st) (by_descending_score scores))"
    using assms by (simp add: by_descending_score_set)
qed

lemma suppress_greedy_selection:
  "greedy_selection boxes scores m t st (suppress boxes scores m t st)"
  unfolding greedy_selection_def
proof (intro conjI ballI allI impI)
  fix i
  assume "i \<in> set (suppress boxes scores m t st)"
  with suppress_candidates [of boxes scores m t st]
  show "i < length scores" and "\<not> scores ! i < st"
    by auto
next
  show "sorted_wrt (precedes scores) (suppress boxes scores m t st)"
    by (rule suppress_precedes)
next
  fix i
  assume "i < length scores" and "\<not> scores ! i < st"
  then show "i \<in> set (suppress boxes scores m t st) \<longleftrightarrow>
      length (filter (\<lambda>a. precedes scores a i) (suppress boxes scores m t st)) < m
      \<and> (\<forall>a\<in>set (suppress boxes scores m t st).
            precedes scores a i \<longrightarrow> \<not> t < iou (boxes ! a) (boxes ! i))"
    by (rule suppress_selects)
qed

lemma greedy_selection_bounded:
  "greedy_selection boxes scores m t st xs \<Longrightarrow> i \<in> set xs \<Longrightarrow>
   i < length scores \<and> \<not> scores ! i < st"
  unfolding greedy_selection_def by blast

lemma greedy_selection_sorted:
  "greedy_selection boxes scores m t st xs \<Longrightarrow> sorted_wrt (precedes scores) xs"
  unfolding greedy_selection_def by blast

lemma greedy_selection_member:
  "greedy_selection boxes scores m t st xs \<Longrightarrow> i < length scores \<Longrightarrow> \<not> scores ! i < st \<Longrightarrow>
   i \<in> set xs \<longleftrightarrow>
     length (filter (\<lambda>a. precedes scores a i) xs) < m
     \<and> (\<forall>a\<in>set xs. precedes scores a i \<longrightarrow> \<not> t < iou (boxes ! a) (boxes ! i))"
  unfolding greedy_selection_def by blast

lemma greedy_selection_set_unique:
  assumes "greedy_selection boxes scores m t st xs"
    and "greedy_selection boxes scores m t st ys"
    and "card {a. a < length scores \<and> precedes scores a i} = k"
    and "i < length scores"
  shows "i \<in> set xs \<longleftrightarrow> i \<in> set ys"
  using assms(3,4)
proof (induction k arbitrary: i rule: less_induct)
  case (less k)
  show ?case
  proof (cases "scores ! i < st")
    case True
    with greedy_selection_bounded [OF assms(1), of i] greedy_selection_bounded [OF assms(2), of i]
    show ?thesis
      by blast
  next
    case False
    have earlier: "a \<in> set xs \<longleftrightarrow> a \<in> set ys" if "a < length scores" "precedes scores a i" for a
    proof -
      have "{b. b < length scores \<and> precedes scores b a}
          \<subseteq> {b. b < length scores \<and> precedes scores b i}"
        using that(2) precedes_trans [of scores _ a i] by blast
      moreover have "a \<in> {b. b < length scores \<and> precedes scores b i}"
        using that by simp
      moreover have "a \<notin> {b. b < length scores \<and> precedes scores b a}"
        by (simp add: precedes_irrefl)
      ultimately have "{b. b < length scores \<and> precedes scores b a}
          \<subset> {b. b < length scores \<and> precedes scores b i}"
        by blast
      then have "card {b. b < length scores \<and> precedes scores b a}
          < card {b. b < length scores \<and> precedes scores b i}"
        by (intro psubset_card_mono) simp_all
      then have "card {b. b < length scores \<and> precedes scores b a} < k"
        using less.prems(1) by simp
      from less.IH [OF this refl that(1)] show ?thesis .
    qed
    have bounded: "a < length scores" if "a \<in> set xs \<or> a \<in> set ys" for a
      using greedy_selection_bounded [OF assms(1), of a] greedy_selection_bounded [OF assms(2), of a]
        that by blast
    have same: "{a \<in> set xs. precedes scores a i} = {a \<in> set ys. precedes scores a i}"
      using earlier bounded by blast
    have "distinct xs" "distinct ys"
      using assms(1,2) [THEN greedy_selection_sorted] by (simp_all add: precedes_sorted_distinct)
    then have "length (filter (\<lambda>a. precedes scores a i) xs) =
        card {a \<in> set xs. precedes scores a i}"
      and "length (filter (\<lambda>a. precedes scores a i) ys) =
        card {a \<in> set ys. precedes scores a i}"
      by (simp_all add: distinct_length_filter Int_def conj_commute)
    with same have count: "length (filter (\<lambda>a. precedes scores a i) xs) =
        length (filter (\<lambda>a. precedes scores a i) ys)"
      by simp
    have compatible: "(\<forall>a\<in>set xs. precedes scores a i \<longrightarrow> \<not> t < iou (boxes ! a) (boxes ! i))
        \<longleftrightarrow> (\<forall>a\<in>set ys. precedes scores a i \<longrightarrow> \<not> t < iou (boxes ! a) (boxes ! i))"
      using same by blast
    show ?thesis
      unfolding greedy_selection_member [OF assms(1) less.prems(2) False]
        greedy_selection_member [OF assms(2) less.prems(2) False] count compatible ..
  qed
qed

lemma greedy_selection_unique:
  assumes "greedy_selection boxes scores m t st xs"
    and "greedy_selection boxes scores m t st ys"
  shows "xs = ys"
proof (rule precedes_sorted_unique)
  show "sorted_wrt (precedes scores) xs" "sorted_wrt (precedes scores) ys"
    using assms [THEN greedy_selection_sorted] by simp_all
  have "a < length scores" if "a \<in> set xs \<or> a \<in> set ys" for a
    using greedy_selection_bounded [OF assms(1), of a] greedy_selection_bounded [OF assms(2), of a]
      that by blast
  then show "set xs = set ys"
    using greedy_selection_set_unique [OF assms refl] by blast
qed

lemma greedy_selection_suppress:
  "greedy_selection boxes scores m t st selected \<longleftrightarrow> selected = suppress boxes scores m t st"
  using greedy_selection_unique [of boxes scores m t st selected "suppress boxes scores m t st"]
    suppress_greedy_selection [of boxes scores m t st]
  by auto

lemma suppress_pairwise:
  assumes "a \<in> set (suppress boxes scores m t st)"
    and "b \<in> set (suppress boxes scores m t st)"
    and "a \<noteq> b"
  shows "\<not> t < iou (boxes ! a) (boxes ! b)"
proof -
  from assms(1,2) obtain p q where "p < length (suppress boxes scores m t st)"
    "q < length (suppress boxes scores m t st)"
    "suppress boxes scores m t st ! p = a" "suppress boxes scores m t st ! q = b"
    by (auto simp add: in_set_conv_nth)
  with assms(3) suppress_no_overlap [of p boxes scores m t st q] show ?thesis
    by auto
qed

section \<open>The claims\<close>

text \<open>
  Claim C1, as stated, fails in its second half.  With \<^verbatim>\<open>flipHorizontal\<close> set, the frame
  is mirrored before the inference, but the box that \<^verbatim>\<open>detect\<close> returns is the box of the
  network scaled by the width and the height, \<open>[0, 0, 25, 200]\<close> here; its mirror image
  in the frame of width 100 would be \<open>[75, 0, 25, 200]\<close>.
\<close>

theorem detect_flipped_boxes_not_unmirrored:
  "flipHorizontal (modelParams ready0)
   \<and> batched_tensor tf0 ready0 frame0 = Inr [[[[Num 2], [Num 1]], [[Num 4], [Num 3]]]]
   \<and> fst (detect tf0 ready0 world0 frame0 0 40) =
       Inr [\<lparr>bbox = [Num 0, Num 0, Num 25, Num 200], class_id = Some 0,
              score = Some (Num (255 / 256))\<rparr>]
   \<and> spec_unmirrored_bbox (Num 100) [Num 0, Num 0, Num 25, Num 200] =
       [Num 75, Num 0, Num 25, Num 200]
   \<and> [Num 0, Num 0, Num 25, Num 200] \<noteq> spec_unmirrored_bbox (Num 100) [Num 0, Num 0, Num 25, Num 200]"
  by (simp add: detect_fixture fixture_facts) (simp add: js_sub_def binary64_eval)

text \<open>
  Claim C1, amended.  With \<^verbatim>\<open>flipHorizontal\<close> set, the tensor given to the inference is
  the resized mirror image of the frame (the axis of the width reversed), whenever
  \<^verbatim>\<open>fromPixels\<close> and \<^verbatim>\<open>resizeBilinear\<close> return, and the boxes that a successful \<^verbatim>\<open>detect\<close>
  returns are the boxes of the network scaled by the width and the height of the frame,
  \<open>x = minX * width\<close> and so on: no horizontal inversion is applied, so they are
  coordinates of the mirrored frame.
\<close>

theorem detect_mirrors_input_not_boxes:
  assumes "flipHorizontal (modelParams self)"
  shows "(batched_tensor tf self inp = Inr batched \<longleftrightarrow>
            (\<exists>imageTensor resized.
                fromPixels tf inp = Inr imageTensor
                \<and> resizeBilinear tf
                     (getValidResolution (imageScaleFactor (modelParams self))
                        (fst (getInputTensorDimensions inp)) (outputStride (modelParams self)))
                     (getValidResolution (imageScaleFactor (modelParams self))
                        (snd (getInputTensorDimensions inp)) (outputStride (modelParams self)))
                     (reverse1 imageTensor) = Inr resized
                \<and> batched = expandDims0 resized))
         \<and> (batched_tensor tf self inp = Inr batched \<longrightarrow>
              model self = Some m \<longrightarrow>
              executeAsync tf m batched = Inr result \<longrightarrow>
              suppression tf self result = Inr selected \<longrightarrow>
              (\<exists>ps. fst (detect tf self w inp t0 t1) = Inr ps
                 \<and> map bbox ps =
                     map (\<lambda>k. [js_mul (ToNumber (at_index (boxes_data result) (k * 4 + 1)))
                                  (snd (getInputTensorDimensions inp)),
                                js_mul (ToNumber (at_index (boxes_data result) (k * 4 + 0)))
                                  (fst (getInputTensorDimensions inp)),
                                js_sub
                                  (js_mul (ToNumber (at_index (boxes_data result) (k * 4 + 3)))
                                     (snd (getInputTensorDimensions inp)))
                                  (js_mul (ToNumber (at_index (boxes_data result) (k * 4 + 1)))
                                     (snd (getInputTensorDimensions inp))),
                                js_sub
                                  (js_mul (ToNumber (at_index (boxes_data result) (k * 4 + 2)))
                                     (fst (getInputTensorDimensions inp)))
                                  (js_mul (ToNumber (at_index (boxes_data result) (k * 4 + 0)))
                                     (fst (getInputTensorDimensions inp)))])
                       selected))"
proof (intro conjI impI)
  show "batched_tensor tf self inp = Inr batched \<longleftrightarrow>
            (\<exists>imageTensor resized.
                fromPixels tf inp = Inr imageTensor
                \<and> resizeBilinear tf
                     (getValidResolution (imageScaleFactor (modelParams self))
                        (fst (getInputTensorDimensions inp)) (outputStride (modelParams self)))
                     (getValidResolution (imageScaleFactor (modelParams self))
                        (snd (getInputTensorDimensions inp)) (outputStride (modelParams self)))
                     (reverse1 imageTensor) = Inr resized
                \<and> batched = expandDims0 resized)"
    using assms by (rule batched_tensor_flipped)
next
  assume "batched_tensor tf self inp = Inr batched"
    and "model self = Some m"
    and "executeAsync tf m batched = Inr result"
    and "suppression tf self result = Inr selected"
  from detect_success_value(1) [OF this, of w t0 t1]
  show "\<exists>ps. fst (detect tf self w inp t0 t1) = Inr ps
                 \<and> map bbox ps =
                     map (\<lambda>k. [js_mul (ToNumber (at_index (boxes_data result) (k * 4 + 1)))
                                  (snd (getInputTensorDimensions inp)),
                                js_mul (ToNumber (at_index (boxes_data result) (k * 4 + 0)))
                                  (fst (getInputTensorDimensions inp)),
                                js_sub
                                  (js_mul (ToNumber (at_index (boxes_data result) (k * 4 + 3)))
                                     (snd (getInputTensorDimensions inp)))
                                  (js_mul (ToNumber (at_index (boxes_data result) (k * 4 + 1)))
                                     (snd (getInputTensorDimensions inp))),
                                js_sub
                                  (js_mul (ToNumber (at_index (boxes_data result) (k * 4 + 2)))
                                     (fst (getInputTensorDimensions inp)))
                                  (js_mul (ToNumber (at_index (boxes_data result) (k * 4 + 0)))
                                     (fst (getInputTensorDimensions inp)))])
                       selected"
    by (simp add: bbox_buildDetectedObjects)
qed

theorem detect_mirrors_input_not_boxes_witness:
  "flipHorizontal (modelParams ready0)
   \<and> fromPixels tf0 frame0 = Inr [[[Num 1], [Num 2]], [[Num 3], [Num 4]]]
   \<and> batched_tensor tf0 ready0 frame0 = Inr [[[[Num 2], [Num 1]], [[Num 4], [Num 3]]]]
   \<and> model ready0 = Some \<lparr>disposed = False\<rparr>
   \<and> executeAsync tf0 \<lparr>disposed = False\<rparr> [[[[Num 2], [Num 1]], [[Num 4], [Num 3]]]] =
       Inr inference0
   \<and> suppression tf0 ready0 inference0 = Inr [0]
   \<and> (\<exists>ps. fst (detect tf0 ready0 world0 frame0 0 40) = Inr ps
          \<and> map bbox ps = [[Num 0, Num 0, Num 25, Num 200]])"
proof -
  have flipped: "flipHorizontal (modelParams ready0)"
    and pixels: "fromPixels tf0 frame0 = Inr [[[Num 1], [Num 2]], [[Num 3], [Num 4]]]"
    by (simp_all add: fixture_facts tf0_def frame0_def)
  have ready: "model ready0 = Some \<lparr>disposed = False\<rparr>"
    and inferred: "executeAsync tf0 \<lparr>disposed = False\<rparr> [[[[Num 2], [Num 1]], [[Num 4], [Num 3]]]] =
      Inr inference0"
    and selected: "suppression tf0 ready0 inference0 = Inr [0]"
    by (simp_all add: fixture_facts)
  note mirrored = detect_mirrors_input_not_boxes [OF flipped, of tf0 frame0
      "[[[[Num 2], [Num 1]], [[Num 4], [Num 3]]]]" "\<lparr>disposed = False\<rparr>" inference0 "[0]"
      world0 0 40]
  have resized: "resizeBilinear tf0 h w (reverse1 [[[Num 1], [Num 2]], [[Num 3], [Num 4]]]) =
      Inr [[[Num 2], [Num 1]], [[Num 4], [Num 3]]]" for h w
    by (simp add: tf0_def reverse1_def)
  from mirrored pixels resized
  have batched: "batched_tensor tf0 ready0 frame0 = Inr [[[[Num 2], [Num 1]], [[Num 4], [Num 3]]]]"
    by (simp add: expandDims0_def)
  from mirrored batched ready inferred selected
  have "\<exists>ps. fst (detect tf0 ready0 world0 frame0 0 40) = Inr ps
          \<and> map bbox ps = [[Num 0, Num 0, Num 25, Num 200]]"
    by (simp add: frame0_def inference0_def at_index_def js_sub_def binary64_eval)
  then show ?thesis
    using flipped pixels batched ready inferred selected by simp
qed

text \<open>
  Claim C2, for the suppression as the specification describes it.  The indexes selected
  (a) have no score below the score threshold; (b) have, two by two, no intersection over
  union above the overlap threshold; (c) are distinct and in the order in which the
  indexes are considered, the descending order of score, and an index whose score is not
  below the threshold is selected exactly when fewer than \<open>max_output_size\<close> indexes were
  selected before it and its box exceeds the overlap threshold with the box of none of
  them, which no other list of indexes satisfies; (d) are at most \<open>max_output_size\<close>.  Of
  two boxes above the overlap threshold with different scores, none below the score
  threshold, only the one of higher score is selected when one box may be returned; two
  boxes below the overlap threshold are both selected when two may be returned.
\<close>

theorem suppress_is_the_greedy_selection:
  "(let selected = suppress boxes scores max_output_size iou_threshold score_threshold
    in (\<forall>i\<in>set selected. i < length scores \<and> \<not> scores ! i < score_threshold)
       \<and> (\<forall>a\<in>set selected. \<forall>b\<in>set selected. a \<noteq> b \<longrightarrow>
              \<not> iou_threshold < iou (boxes ! a) (boxes ! b))
       \<and> distinct selected
       \<and> sorted_wrt (\<lambda>i j. scores ! j \<le> scores ! i) selected
       \<and> sorted_wrt (precedes scores) selected
       \<and> (\<forall>i<length scores. \<not> scores ! i < score_threshold \<longrightarrow>
              (i \<in> set selected \<longleftrightarrow>
                 length (filter (\<lambda>a. precedes scores a i) selected) < max_output_size
                 \<and> (\<forall>a\<in>set selected. precedes scores a i \<longrightarrow>
                       \<not> iou_threshold < iou (boxes ! a) (boxes ! i))))
       \<and> (\<forall>other. greedy_selection boxes scores max_output_size iou_threshold score_threshold
                      other \<longleftrightarrow> other = selected)
       \<and> length selected \<le> max_output_size)
   \<and> (s0 \<noteq> s1 \<longrightarrow> \<not> s0 < score_threshold \<longrightarrow> \<not> s1 < score_threshold \<longrightarrow>
        iou_threshold < iou b0 b1 \<longrightarrow> 1 \<le> max_output_size \<longrightarrow>
        suppress [b0, b1] [s0, s1] max_output_size iou_threshold score_threshold =
          [if s1 < s0 then 0 else 1])
   \<and> (\<not> s0 < score_threshold \<longrightarrow> \<not> s1 < score_threshold \<longrightarrow>
        iou b0 b1 < iou_threshold \<longrightarrow> 2 \<le> max_output_size \<longrightarrow>
        set (suppress [b0, b1] [s0, s1] max_output_size iou_threshold score_threshold) = {0, 1})"
  unfolding Let_def
proof (intro conjI allI impI ballI)
  fix i
  assume "i \<in> set (suppress boxes scores max_output_size iou_threshold score_threshold)"
  with suppress_candidates [of boxes scores max_output_size iou_threshold score_threshold]
  show "i < length scores" and "\<not> scores ! i < score_threshold"
    by auto
next
  fix a b
  assume "a \<in> set (suppress boxes scores max_output_size iou_threshold score_threshold)"
    and "b \<in> set (suppress boxes scores max_output_size iou_threshold score_threshold)"
    and "a \<noteq> b"
  then show "\<not> iou_threshold < iou (boxes ! a) (boxes ! b)"
    by (rule suppress_pairwise)
next
  fix i
  assume "i < length scores" and "\<not> scores ! i < score_threshold"
  then show "i \<in> set (suppress boxes scores max_output_size iou_threshold score_threshold) \<longleftrightarrow>
      length (filter (\<lambda>a. precedes scores a i)
                (suppress boxes scores max_output_size iou_threshold score_threshold))
        < max_output_size
      \<and> (\<forall>a\<in>set (suppress boxes scores max_output_size iou_threshold score_threshold).
            precedes scores a i \<longrightarrow> \<not> iou_threshold < iou (boxes ! a) (boxes ! i))"
    by (rule suppress_selects)
next
  fix other
  show "greedy_selection boxes scores max_output_size iou_threshold score_threshold other \<longleftrightarrow>
      other = suppress boxes scores max_output_size iou_threshold score_threshold"
    by (rule greedy_selection_suppress)
next
  assume "s0 \<noteq> s1" "\<not> s0 < score_threshold" "\<not> s1 < score_threshold"
    "iou_threshold < iou b0 b1" "1 \<le> max_output_size"
  then show "suppress [b0, b1] [s0, s1] max_output_size iou_threshold score_threshold =
      [if s1 < s0 then 0 else 1]"
    by (rule suppress_two_overlapping)
next
  assume "\<not> s0 < score_threshold" "\<not> s1 < score_threshold" "iou b0 b1 < iou_threshold"
    "2 \<le> max_output_size"
  then show "set (suppress [b0, b1] [s0, s1] max_output_size iou_threshold score_threshold) =
      {0, 1}"
    by (rule suppress_two_apart)
qed (simp_all add: suppress_distinct suppress_sorted suppress_precedes suppress_length)

theorem suppress_is_the_greedy_selection_witness:
  "suppress boxes4 scores4 5 (1 / 2) (1 / 2) = [1, 2]
   \<and> (1 < length scores4 \<and> \<not> scores4 ! 1 < 1 / 2)
   \<and> (2 < length scores4 \<and> \<not> scores4 ! 2 < 1 / 2)
   \<and> \<not> 1 / 2 < iou (boxes4 ! 1) (boxes4 ! 2)
   \<and> precedes scores4 1 0 \<and> 1 / 2 < iou (boxes4 ! 1) (boxes4 ! 0)
   \<and> 0 \<notin> set (suppress boxes4 scores4 5 (1 / 2) (1 / 2))
   \<and> scores4 ! 3 < 1 / 2
   \<and> greedy_selection boxes4 scores4 5 (1 / 2) (1 / 2) [1, 2]
   \<and> \<not> greedy_selection boxes4 scores4 5 (1 / 2) (1 / 2) [1]
   \<and> suppress boxes3 scores3 1 (1 / 2) (1 / 2) = [0]
   \<and> \<not> 1 / 2 < iou (boxes3 ! 0) (boxes3 ! 2)
   \<and> precedes scores3 0 2
   \<and> length (filter (\<lambda>a. precedes scores3 a 2) (suppress boxes3 scores3 1 (1 / 2) (1 / 2))) = 1
   \<and> 2 \<notin> set (suppress boxes3 scores3 1 (1 / 2) (1 / 2))
   \<and> greedy_selection boxes3 scores3 1 (1 / 2) (1 / 2) [0]
   \<and> \<not> greedy_selection boxes3 scores3 1 (1 / 2) (1 / 2) [2]
   \<and> \<not> greedy_selection boxes3 scores3 1 (1 / 2) (1 / 2) [1]
   \<and> suppress [(0, 0, 1, 1), (0, 0, 1, 4 / 5)] [4 / 5, 9 / 10] 5 (1 / 2) (1 / 2) = [1]
   \<and> set (suppress [(0, 0, 1, 1), (0, 1 / 2, 1, 3 / 2)] [4 / 5, 9 / 10] 5 (1 / 2) (1 / 2)) = {0, 1}"
proof -
  have selected: "suppress boxes4 scores4 5 (1 / 2) (1 / 2) = [1, 2]"
    by (simp add: suppress_def by_descending_score_def boxes4_def scores4_def upt_rec iou_def
        intersection_area_def box_area_def Let_def)
  have capped: "suppress boxes3 scores3 1 (1 / 2) (1 / 2) = [0]"
    by (simp add: suppress_def by_descending_score_def boxes3_def scores3_def upt_rec iou_def
        intersection_area_def box_area_def Let_def)
  have overlapping: "(1 / 2 :: real) < iou (0, 0, 1, 1) (0, 0, 1, 4 / 5)"
    and apart: "iou (0, 0, 1, 1) (0, 1 / 2, 1, 3 / 2) < (1 / 2 :: real)"
    by (simp_all add: iou_def intersection_area_def box_area_def Let_def)
  have facts4: "1 < length scores4 \<and> \<not> scores4 ! 1 < 1 / 2"
    "2 < length scores4 \<and> \<not> scores4 ! 2 < 1 / 2"
    "\<not> 1 / 2 < iou (boxes4 ! 1) (boxes4 ! 2)"
    "precedes scores4 1 0" "1 / 2 < iou (boxes4 ! 1) (boxes4 ! 0)"
    "scores4 ! 3 < 1 / 2"
    by (simp_all add: scores4_def boxes4_def precedes_def iou_def intersection_area_def
        box_area_def Let_def)
  have facts3: "\<not> 1 / 2 < iou (boxes3 ! 0) (boxes3 ! 2)" "precedes scores3 0 2"
    by (simp_all add: scores3_def boxes3_def precedes_def iou_def intersection_area_def
        box_area_def Let_def)
  note general4 = suppress_is_the_greedy_selection [of boxes4 scores4 5 "1 / 2" "1 / 2"
      "4 / 5" "9 / 10" "(0, 0, 1, 1)" "(0, 0, 1, 4 / 5)", unfolded Let_def selected]
  note general3 = suppress_is_the_greedy_selection [of boxes3 scores3 1 "1 / 2" "1 / 2"
      "4 / 5" "9 / 10" "(0, 0, 1, 1)" "(0, 1 / 2, 1, 3 / 2)", unfolded Let_def capped]
  from general4 have unique4:
    "\<forall>other. greedy_selection boxes4 scores4 5 (1 / 2) (1 / 2) other \<longleftrightarrow> other = [1, 2]"
    by blast
  from general3 have unique3:
    "\<forall>other. greedy_selection boxes3 scores3 1 (1 / 2) (1 / 2) other \<longleftrightarrow> other = [0]"
    by blast
  from general4 overlapping
  have higher: "suppress [(0, 0, 1, 1), (0, 0, 1, 4 / 5)] [4 / 5, 9 / 10] 5 (1 / 2) (1 / 2) = [1]"
    by simp
  from suppress_is_the_greedy_selection [of boxes4 scores4 5 "1 / 2" "1 / 2" "4 / 5" "9 / 10"
      "(0, 0, 1, 1)" "(0, 1 / 2, 1, 3 / 2)"] apart
  have both: "set (suppress [(0, 0, 1, 1), (0, 1 / 2, 1, 3 / 2)] [4 / 5, 9 / 10] 5 (1 / 2) (1 / 2)) =
      {0, 1}"
    by simp
  show ?thesis
    using selected capped facts4 facts3 unique4 unique3 higher both
    by (simp add: precedes_def scores3_def)
qed

text \<open>
  Claim C3 fails on the code where no score of a box exceeds \<^verbatim>\<open>Number.MIN_VALUE\<close>, which
  is positive: for three classes of score 0 the maximum returned is \<^verbatim>\<open>Number.MIN_VALUE\<close>
  and the class is -1, not the maximum 0 and its first class 0.  (For a box that has a
  score above \<^verbatim>\<open>Number.MIN_VALUE\<close> the claim holds, lemma
  \<open>calculateMaxScores_finite_box\<close>, and so does its example, lemma
  \<open>calculateMaxScores_example\<close>.)
\<close>

theorem calculateMaxScores_zero_scores:
  "calculateMaxScores [Num 0, Num 0, Num 0] 1 3 = ([Number_MIN_VALUE], [- 1])
   \<and> Number_MIN_VALUE = Num (1 / 2 ^ 1074)
   \<and> js_gt Number_MIN_VALUE (Num 0)"
  by (simp add: calculateMaxScores_def class_loop_def class_step_def at_index_def
      Number_MIN_VALUE_def upt_rec Let_def)

text \<open>
  Claim C4, as stated, fails where the arithmetic rounds.  For the dimension \<open>2 ^ 54\<close>, the
  scale factor 1 and the stride 16, \<open>d * s - 1\<close> is rounded to \<open>2 ^ 54\<close>, its remainder by 16
  is 0 and the sum with 1 is rounded to \<open>2 ^ 54\<close> again: the value returned is \<open>2 ^ 54\<close>,
  which is congruent to 0 and not to 1 modulo 16.
\<close>

theorem getValidResolution_2_54_not_congruent_one:
  "(0::real) < 2 ^ 54 \<and> (0::real) < 1 \<and> (1::real) \<le> 1 \<and> (1::nat) \<le> 16
   \<and> binary64 (2 ^ 54) = Num (2 ^ 54) \<and> binary64 1 = Num 1 \<and> binary64 16 = Num 16
   \<and> js_sub (js_mul (Num (2 ^ 54)) (Num 1)) (Num 1) = Num (2 ^ 54)
   \<and> getValidResolution (Num 1) (Num (2 ^ 54)) (Num (real (16::nat))) = Num (of_int (2 ^ 54))
   \<and> (2 ^ 54 :: int) mod int 16 = 0
   \<and> (2 ^ 54 :: int) mod int 16 \<noteq> 1 mod int 16"
  by (simp add: getValidResolution_def js_sub_def js_fmod_def js_trunc_def binary64_eval)

text \<open>
  Claim C4, amended.  For a stride of at least 1 and a product \<open>d * s\<close> that is not
  negative and below \<open>2 ^ 53\<close>, \<^verbatim>\<open>getValidResolution\<close> computes the binary64 value \<open>e\<close> of
  \<open>d * s - 1\<close>, which lies between the integers next to \<open>d * s\<close> less 1, and returns
  \<open>e - (e % stride) + 1\<close> with nothing more rounded: the value returned is an integer
  congruent to 1 modulo the stride.
\<close>

theorem getValidResolution_congruent_one_below_2_53:
  assumes "1 \<le> stride" and "0 \<le> d * s" and "d * s < 2 ^ 53"
  shows "\<exists>e. js_sub (js_mul (Num d) (Num s)) (Num 1) = Num e
           \<and> of_int \<lfloor>d * s\<rfloor> - 1 \<le> e \<and> e \<le> of_int \<lceil>d * s\<rceil> - 1
           \<and> getValidResolution (Num s) (Num d) (Num (real stride)) =
               Num (e - js_fmod e (real stride) + 1)
           \<and> (\<exists>m::int. e - js_fmod e (real stride) + 1 = of_int m
                  \<and> m mod int stride = 1 mod int stride)"
proof -
  have small: "\<bar>d * s\<bar> < 2 ^ 53"
    using assms(2,3) by simp
  obtain p where p: "binary64 (d * s) = Num p"
    and p_lo: "of_int \<lfloor>d * s\<rfloor> \<le> p" and p_hi: "p \<le> of_int \<lceil>d * s\<rceil>"
    using binary64_between [of "\<lfloor>d * s\<rfloor>" "d * s" "\<lceil>d * s\<rceil>"] small by auto
  have floor0: "0 \<le> \<lfloor>d * s\<rfloor>"
    using assms(2) by simp
  have "\<lceil>d * s\<rceil> \<le> 2 ^ 53"
    using assms(3) by (simp add: ceiling_le_iff)
  hence ceil53: "real_of_int \<lceil>d * s\<rceil> \<le> 2 ^ 53"
    by (metis of_int_le_iff of_int_numeral of_int_power)
  have p0: "0 \<le> p"
    using p_lo floor0 by (smt (verit) of_int_0_le_iff)
  have p53: "p \<le> 2 ^ 53"
    by (rule order_trans [OF p_hi ceil53])
  have small1: "\<bar>p - 1\<bar> < 2 ^ 53"
    using p0 p53 by simp
  obtain e where e: "binary64 (p - 1) = Num e"
    and e_lo: "of_int (\<lfloor>d * s\<rfloor> - 1) \<le> e" and e_hi: "e \<le> of_int (\<lceil>d * s\<rceil> - 1)"
    using binary64_between [of "\<lfloor>d * s\<rfloor> - 1" "p - 1" "\<lceil>d * s\<rceil> - 1"] small1 p_lo p_hi
    by auto
  have sub: "js_sub (js_mul (Num d) (Num s)) (Num 1) = Num e"
    using p e by (simp add: js_sub_def)
  have e_ge: "- 1 \<le> e"
    using e_lo floor0 by (smt (verit) of_int_0_le_iff of_int_diff of_int_1)
  have e_le: "e \<le> 2 ^ 53 - 1"
  proof -
    have "e \<le> real_of_int \<lceil>d * s\<rceil> - 1"
      using e_hi by (simp only: of_int_diff of_int_1)
    with ceil53 show ?thesis
      by linarith
  qed
  obtain q :: int where q: "e - js_fmod e (real stride) = of_int (int stride * q)"
    and q_nonneg: "0 \<le> e \<Longrightarrow> 0 \<le> int stride * q \<and> real_of_int (int stride * q) \<le> e"
    and q_neg: "e < 0 \<Longrightarrow> int stride * q \<le> 0 \<and> e \<le> real_of_int (int stride * q)"
    using js_fmod_multiple [OF assms(1), of e] by blast
  let ?Q = "int stride * q"
  have Q_lo: "- 1 \<le> ?Q"
  proof (cases "0 \<le> e")
    case True
    with q_nonneg show ?thesis by simp
  next
    case False
    hence "e \<le> real_of_int ?Q"
      using q_neg by simp
    hence "real_of_int (- 1) \<le> real_of_int ?Q"
      using e_ge by simp
    thus ?thesis
      by (simp only: of_int_le_iff)
  qed
  have Q_hi: "?Q \<le> 2 ^ 53 - 1"
  proof (cases "0 \<le> e")
    case True
    hence "real_of_int ?Q \<le> real_of_int (2 ^ 53 - 1)"
      using q_nonneg e_le by simp
    thus ?thesis
      by (simp only: of_int_le_iff)
  next
    case False
    hence "?Q \<le> 0"
      using q_neg by simp
    thus ?thesis
      by simp
  qed
  have step1: "binary64 (e - js_fmod e (real stride)) = Num (of_int ?Q)"
    unfolding q using Q_lo Q_hi by (intro binary64_of_int) simp
  have "binary64 (real_of_int (?Q + 1)) = Num (of_int (?Q + 1))"
    using Q_lo Q_hi by (intro binary64_of_int) simp
  hence step2: "binary64 (real_of_int ?Q + 1) = Num (of_int ?Q + 1)"
    by simp
  have nz: "real stride \<noteq> 0"
    using assms(1) by simp
  have res: "getValidResolution (Num s) (Num d) (Num (real stride)) =
      Num (e - js_fmod e (real stride) + 1)"
    unfolding getValidResolution_def Let_def sub
    using nz step1 step2 by (simp add: js_sub_def q)
  have int_res: "e - js_fmod e (real stride) + 1 = of_int (?Q + 1)"
    using q by simp
  have cong: "(?Q + 1) mod int stride = 1 mod int stride"
    by (simp add: mod_simps)
  from sub e_lo e_hi res int_res cong show ?thesis
    by (intro exI [of _ e] conjI exI [of _ "?Q + 1"]) simp_all
qed

theorem getValidResolution_congruent_one_below_2_53_witness:
  "(1::nat) \<le> 16 \<and> (0::real) \<le> 710 * (6305039478318694 / 2 ^ 53)
   \<and> (710::real) * (6305039478318694 / 2 ^ 53) < 2 ^ 53
   \<and> binary64 (7 / 10) = Num (6305039478318694 / 2 ^ 53)
   \<and> getValidResolution (Num (6305039478318694 / 2 ^ 53)) (Num 710) (Num (real (16::nat))) =
       Num 481
   \<and> (481::int) mod int 16 = 1 mod int 16
   \<and> getValidResolution (Num (6305039478318694 / 2 ^ 53)) (Num 300) (Num (real (16::nat))) =
       Num 209
   \<and> (\<exists>e. js_sub (js_mul (Num 710) (Num (6305039478318694 / 2 ^ 53))) (Num 1) = Num e
           \<and> of_int \<lfloor>710 * (6305039478318694 / 2 ^ 53 :: real)\<rfloor> - 1 \<le> e
           \<and> e \<le> of_int \<lceil>710 * (6305039478318694 / 2 ^ 53 :: real)\<rceil> - 1
           \<and> getValidResolution (Num (6305039478318694 / 2 ^ 53)) (Num 710)
                (Num (real (16::nat))) = Num (e - js_fmod e (real (16::nat)) + 1)
           \<and> (\<exists>m::int. e - js_fmod e (real (16::nat)) + 1 = of_int m
                  \<and> m mod int 16 = 1 mod int 16))"
proof -
  have a: "(1::nat) \<le> 16" "(0::real) \<le> 710 * (6305039478318694 / 2 ^ 53)"
    "(710::real) * (6305039478318694 / 2 ^ 53) < 2 ^ 53"
    by simp_all
  have b: "binary64 (7 / 10) = Num (6305039478318694 / 2 ^ 53)"
    by (simp add: binary64_eval)
  have c: "getValidResolution (Num (6305039478318694 / 2 ^ 53)) (Num 710) (Num (real (16::nat))) =
       Num 481"
    by (simp add: getValidResolution_def js_sub_def js_fmod_def js_trunc_def binary64_eval)
  have d: "getValidResolution (Num (6305039478318694 / 2 ^ 53)) (Num 300) (Num (real (16::nat))) =
       Num 209"
    by (simp add: getValidResolution_def js_sub_def js_fmod_def js_trunc_def binary64_eval)
  from a b c d getValidResolution_congruent_one_below_2_53 [OF a] show ?thesis
    by (intro conjI) simp_all
qed

text \<open>
  Claim C5.  The box of every detection is
  \<open>[minX * width, minY * height, maxX * width - minX * width, maxY * height - minY * height]\<close>
  for the entries \<open>[minY, minX, maxY, maxX]\<close> of the selected box, in the arithmetic of
  the numbers in general: each product and each difference is rounded to binary64, and
  they are those of the reals when the four products are integers of magnitude up to
  \<open>2 ^ 53\<close>, as their differences.  The box \<open>[0.1, 0.2, 0.6, 0.8]\<close> in a frame of width 100
  and height 200 gives \<open>[20, 20, 60, 100]\<close>; and the width and the height that \<^verbatim>\<open>detect\<close>
  gives to \<^verbatim>\<open>buildDetectedObjects\<close> are those that \<^verbatim>\<open>getInputTensorDimensions\<close> reads from
  the input frame (its fields, or the first two entries of its shape), not the resized
  ones.
\<close>

theorem buildDetectedObjects_pixel_boxes:
  "map bbox (buildDetectedObjects width height boxes scores indexes classes) =
     map (\<lambda>k. [js_mul (ToNumber (at_index boxes (k * 4 + 1))) width,
                js_mul (ToNumber (at_index boxes (k * 4 + 0))) height,
                js_sub (js_mul (ToNumber (at_index boxes (k * 4 + 3))) width)
                  (js_mul (ToNumber (at_index boxes (k * 4 + 1))) width),
                js_sub (js_mul (ToNumber (at_index boxes (k * 4 + 2))) height)
                  (js_mul (ToNumber (at_index boxes (k * 4 + 0))) height)]) indexes
   \<and> map bbox (buildDetectedObjects (Num W) (Num H) [Num minY, Num minX, Num maxY, Num maxX]
                 scores [0] classes) =
       [[binary64 (minX * W), binary64 (minY * H),
         js_sub (binary64 (maxX * W)) (binary64 (minX * W)),
         js_sub (binary64 (maxY * H)) (binary64 (minY * H))]]
   \<and> (minX * W = of_int x0 \<longrightarrow> minY * H = of_int y0 \<longrightarrow>
        maxX * W = of_int x1 \<longrightarrow> maxY * H = of_int y1 \<longrightarrow>
        \<bar>x0\<bar> \<le> 2 ^ 53 \<longrightarrow> \<bar>y0\<bar> \<le> 2 ^ 53 \<longrightarrow> \<bar>x1\<bar> \<le> 2 ^ 53 \<longrightarrow> \<bar>y1\<bar> \<le> 2 ^ 53 \<longrightarrow>
        \<bar>x1 - x0\<bar> \<le> 2 ^ 53 \<longrightarrow> \<bar>y1 - y0\<bar> \<le> 2 ^ 53 \<longrightarrow>
        map bbox (buildDetectedObjects (Num W) (Num H) [Num minY, Num minX, Num maxY, Num maxX]
                    scores [0] classes) =
          [[Num (minX * W), Num (minY * H), Num (maxX * W - minX * W),
            Num (maxY * H - minY * H)]])
   \<and> map bbox (buildDetectedObjects (Num 100) (Num 200)
                 [binary64 (1 / 10), binary64 (2 / 10), binary64 (6 / 10), binary64 (8 / 10)]
                 scores [0] classes) =
       [[Num 20, Num 20, Num 60, Num 100]]
   \<and> (batched_tensor tf self inp = Inr batched \<longrightarrow>
        model self = Some m \<longrightarrow>
        executeAsync tf m batched = Inr result \<longrightarrow>
        suppression tf self result = Inr selected \<longrightarrow>
        fst (detect tf self world inp t0 t1) =
          Inr (buildDetectedObjects (snd (getInputTensorDimensions inp))
                 (fst (getInputTensorDimensions inp)) (boxes_data result)
                 (scores_data result) selected
                 (snd (calculateMaxScores (scores_data result) (fst (snd (scores_shape result)))
                         (snd (snd (scores_shape result)))))))
   \<and> getInputTensorDimensions (Element h w img) = (Num (real h), Num (real w))
   \<and> getInputTensorDimensions (Tensor (h # w # shape) img) = (Num (real h), Num (real w))"
proof (intro conjI impI)
  show "map bbox (buildDetectedObjects (Num W) (Num H) [Num minY, Num minX, Num maxY, Num maxX]
                 scores [0] classes) =
       [[binary64 (minX * W), binary64 (minY * H),
         js_sub (binary64 (maxX * W)) (binary64 (minX * W)),
         js_sub (binary64 (maxY * H)) (binary64 (minY * H))]]"
    by (simp add: bbox_detectedObject at_index_def)
next
  assume products: "minX * W = of_int x0" "minY * H = of_int y0" "maxX * W = of_int x1"
    "maxY * H = of_int y1"
    and bounds: "\<bar>x0\<bar> \<le> 2 ^ 53" "\<bar>y0\<bar> \<le> 2 ^ 53" "\<bar>x1\<bar> \<le> 2 ^ 53" "\<bar>y1\<bar> \<le> 2 ^ 53"
    and differences: "\<bar>x1 - x0\<bar> \<le> 2 ^ 53" "\<bar>y1 - y0\<bar> \<le> 2 ^ 53"
  have "js_mul (Num minX) (Num W) = Num (of_int x0)" "js_mul (Num minY) (Num H) = Num (of_int y0)"
    "js_mul (Num maxX) (Num W) = Num (of_int x1)" "js_mul (Num maxY) (Num H) = Num (of_int y1)"
    using products bounds by (simp_all only: js_mul_of_int)
  moreover have "js_sub (Num (of_int x1)) (Num (of_int x0)) = Num (of_int (x1 - x0))"
    "js_sub (Num (of_int y1)) (Num (of_int y0)) = Num (of_int (y1 - y0))"
    using differences by (simp_all only: js_sub_of_int)
  ultimately show "map bbox (buildDetectedObjects (Num W) (Num H)
                     [Num minY, Num minX, Num maxY, Num maxX] scores [0] classes) =
          [[Num (minX * W), Num (minY * H), Num (maxX * W - minX * W),
            Num (maxY * H - minY * H)]]"
    using products
    by (simp add: bbox_detectedObject at_index_def del: js_mul.simps(1))
next
  show "map bbox (buildDetectedObjects (Num 100) (Num 200)
                 [binary64 (1 / 10), binary64 (2 / 10), binary64 (6 / 10), binary64 (8 / 10)]
                 scores [0] classes) =
       [[Num 20, Num 20, Num 60, Num 100]]"
    by (simp add: detectedObject_def Let_def at_index_def js_sub_def binary64_eval)
next
  assume "batched_tensor tf self inp = Inr batched"
    and "model self = Some m"
    and "executeAsync tf m batched = Inr result"
    and "suppression tf self result = Inr selected"
  then show "fst (detect tf self world inp t0 t1) =
          Inr (buildDetectedObjects (snd (getInputTensorDimensions inp))
                 (fst (getInputTensorDimensions inp)) (boxes_data result)
                 (scores_data result) selected
                 (snd (calculateMaxScores (scores_data result) (fst (snd (scores_shape result)))
                         (snd (snd (scores_shape result))))))"
    by (rule detect_success_value(1))
next
  show "getInputTensorDimensions (Tensor (h # w # shape) img) = (Num (real h), Num (real w))"
    by (simp add: at_index_def)
qed (simp_all add: bbox_buildDetectedObjects)

theorem buildDetectedObjects_pixel_boxes_witness:
  "batched_tensor tf0 ready0 frame0 = Inr [[[[Num 2], [Num 1]], [[Num 4], [Num 3]]]]
   \<and> model ready0 = Some \<lparr>disposed = False\<rparr>
   \<and> executeAsync tf0 \<lparr>disposed = False\<rparr> [[[[Num 2], [Num 1]], [[Num 4], [Num 3]]]] =
       Inr inference0
   \<and> suppression tf0 ready0 inference0 = Inr [0]
   \<and> getInputTensorDimensions frame0 = (Num 200, Num 100)
   \<and> imageScaleFactor (modelParams ready0) = binary64 (7 / 10)
   \<and> getValidResolution (binary64 (7 / 10)) (Num 100) (Num 16) = Num 65
   \<and> boxes_data inference0 = [Num 0, Num 0, Num 1, Num (1 / 4)]
   \<and> (0::real) * 100 = of_int 0 \<and> (0::real) * 200 = of_int 0
   \<and> (1 / 4 :: real) * 100 = of_int 25 \<and> (1::real) * 200 = of_int 200
   \<and> \<bar>0 :: int\<bar> \<le> 2 ^ 53 \<and> \<bar>25 :: int\<bar> \<le> 2 ^ 53 \<and> \<bar>200 :: int\<bar> \<le> 2 ^ 53
   \<and> \<bar>25 - 0 :: int\<bar> \<le> 2 ^ 53 \<and> \<bar>200 - 0 :: int\<bar> \<le> 2 ^ 53
   \<and> map bbox (buildDetectedObjects (Num 100) (Num 200) [Num 0, Num 0, Num 1, Num (1 / 4)]
                 [] [0] []) =
       [[Num 0, Num 0, Num 25, Num 200]]
   \<and> fst (detect tf0 ready0 world0 frame0 0 40) =
       Inr [\<lparr>bbox = [Num 0, Num 0, Num 25, Num 200], class_id = Some 0,
              score = Some (Num (255 / 256))\<rparr>]"
proof -
  have batched: "batched_tensor tf0 ready0 frame0 = Inr [[[[Num 2], [Num 1]], [[Num 4], [Num 3]]]]"
    and loaded: "model ready0 = Some \<lparr>disposed = False\<rparr>"
    and inferred: "executeAsync tf0 \<lparr>disposed = False\<rparr> [[[[Num 2], [Num 1]], [[Num 4], [Num 3]]]] =
      Inr inference0"
    and selected: "suppression tf0 ready0 inference0 = Inr [0]"
    by (simp_all add: fixture_facts)
  have products: "(0::real) * 100 = of_int 0" "(0::real) * 200 = of_int 0"
    "(1 / 4 :: real) * 100 = of_int 25" "(1::real) * 200 = of_int 200"
    and bounds: "\<bar>0 :: int\<bar> \<le> 2 ^ 53" "\<bar>25 :: int\<bar> \<le> 2 ^ 53" "\<bar>200 :: int\<bar> \<le> 2 ^ 53"
    and differences: "\<bar>25 - 0 :: int\<bar> \<le> 2 ^ 53" "\<bar>200 - 0 :: int\<bar> \<le> 2 ^ 53"
    by simp_all
  note general = buildDetectedObjects_pixel_boxes [where self = ready0
      and m = "\<lparr>disposed = False\<rparr>" and tf = tf0 and inp = frame0 and result = inference0
      and batched = "[[[[Num 2], [Num 1]], [[Num 4], [Num 3]]]]"
      and selected = "[0]" and world = world0 and ?t0.0 = 0 and ?t1.0 = 40 and h = 200 and w = 100
      and img = "[[[Num 1], [Num 2]], [[Num 3], [Num 4]]]" and width = "Num 100"
      and height = "Num 200" and boxes = "[]" and scores = "[]" and indexes = "[]"
      and classes = "[]" and W = 100 and H = 200 and minY = 0 and minX = 0 and maxY = 1
      and maxX = "1 / 4" and shape = "[]" and ?x0.0 = 0 and ?y0.0 = 0 and ?x1.0 = 25
      and ?y1.0 = 200]
  from general have dims: "getInputTensorDimensions frame0 = (Num 200, Num 100)"
    by (simp add: frame0_def)
  from general [THEN conjunct2, THEN conjunct2, THEN conjunct1, rule_format, OF products
      bounds(1) bounds(1) bounds(2) bounds(3) differences]
  have exact: "map bbox (buildDetectedObjects (Num 100) (Num 200)
      [Num 0, Num 0, Num 1, Num (1 / 4)] [] [0] []) = [[Num 0, Num 0, Num 25, Num 200]]"
    by simp
  from general batched loaded inferred selected
  have "fst (detect tf0 ready0 world0 frame0 0 40) =
      Inr (buildDetectedObjects (snd (getInputTensorDimensions frame0))
             (fst (getInputTensorDimensions frame0)) (boxes_data inference0)
             (scores_data inference0) [0]
             (snd (calculateMaxScores (scores_data inference0)
                     (fst (snd (scores_shape inference0)))
                     (snd (snd (scores_shape inference0))))))"
    by blast
  then have detected: "fst (detect tf0 ready0 world0 frame0 0 40) =
      Inr [\<lparr>bbox = [Num 0, Num 0, Num 25, Num 200], class_id = Some 0,
             score = Some (Num (255 / 256))\<rparr>]"
    by (simp only: objects_fixture)
  have scale: "imageScaleFactor (modelParams ready0) = binary64 (7 / 10)"
    by (simp add: ready0_def unloaded0_def new_ObjectDetection_def defaultParams_def)
  have resolution: "getValidResolution (binary64 (7 / 10)) (Num 100) (Num 16) = Num 65"
    by (simp add: getValidResolution_def js_sub_def js_fmod_def js_trunc_def binary64_eval)
  have data: "boxes_data inference0 = [Num 0, Num 0, Num 1, Num (1 / 4)]"
    by (simp add: inference0_def)
  show ?thesis
    using batched loaded inferred selected dims scale resolution data products bounds
      differences exact detected
    by (intro conjI)
qed

text \<open>
  Claim C6, as stated, fails: on an object that was never loaded, \<^verbatim>\<open>detect\<close> fails with
  the \<^verbatim>\<open>TypeError\<close> of reading \<^verbatim>\<open>executeAsync\<close> of \<^verbatim>\<open>undefined\<close>, which is not an
  \<open>InvalidStateError\<close>.
\<close>

theorem detect_unloaded_TypeError:
  "model unloaded0 = None
   \<and> fst (detect tf0 unloaded0 world0 frame0 0 40) = Inl TypeError
   \<and> fst (detect tf0 unloaded0 world0 frame0 0 40) \<noteq> Inl InvalidStateError"
  by (simp add: detect_unloaded [where batched = "[[[[Num 2], [Num 1]], [[Num 4], [Num 3]]]]"]
      fixture_facts)

text \<open>
  Claim C6, amended.  \<^verbatim>\<open>detect\<close> has no test of the state and never fails with an
  \<open>InvalidStateError\<close>.  In every state it first makes the tensor of the input, and fails
  with what \<^verbatim>\<open>fromPixels\<close> or \<^verbatim>\<open>resizeBilinear\<close> throws when one of them throws.  On an
  object whose model is not assigned, with an input of which the tensor is made, it fails
  with a \<^verbatim>\<open>TypeError\<close>.  After \<^verbatim>\<open>dispose\<close> the object still holds the handle, now
  disposed, and \<^verbatim>\<open>detect\<close> runs as before on it: it makes the same tensor, fails with what
  the inference throws when it throws, fails with what the suppression throws when it
  throws, and returns the detections when the inference and the suppression answer.
\<close>

theorem detect_without_state_check:
  "fst (detect tf self w inp t0 t1) \<noteq> Inl InvalidStateError
   \<and> (batched_tensor tf self inp = Inl thrown \<longrightarrow>
        fst (detect tf self w inp t0 t1) = Inl (Thrown thrown))
   \<and> (batched_tensor tf self inp = Inr batched \<longrightarrow> model self = None \<longrightarrow>
        fst (detect tf self w inp t0 t1) = Inl TypeError)
   \<and> batched_tensor tf (dispose self) inp = batched_tensor tf self inp
   \<and> (model self = Some m \<longrightarrow>
        model (dispose self) = Some (m\<lparr>disposed := True\<rparr>)
        \<and> (batched_tensor tf self inp = Inr batched \<longrightarrow>
             (executeAsync tf (m\<lparr>disposed := True\<rparr>) batched = Inl thrown \<longrightarrow>
                fst (detect tf (dispose self) w inp t0 t1) = Inl (Thrown thrown))
             \<and> (executeAsync tf (m\<lparr>disposed := True\<rparr>) batched = Inr result \<longrightarrow>
                  (suppression tf self result = Inl thrown \<longrightarrow>
                     fst (detect tf (dispose self) w inp t0 t1) = Inl (Thrown thrown))
                  \<and> (suppression tf self result = Inr selected \<longrightarrow>
                       fst (detect tf (dispose self) w inp t0 t1) =
                         Inr (buildDetectedObjects (snd (getInputTensorDimensions inp))
                                (fst (getInputTensorDimensions inp)) (boxes_data result)
                                (scores_data result) selected
                                (snd (calculateMaxScores (scores_data result)
                                        (fst (snd (scores_shape result)))
                                        (snd (snd (scores_shape result))))))))))"
proof (intro conjI impI)
  show "fst (detect tf self w inp t0 t1) \<noteq> Inl InvalidStateError"
    by (rule detect_never_InvalidStateError)
next
  assume "batched_tensor tf self inp = Inl thrown"
  then show "fst (detect tf self w inp t0 t1) = Inl (Thrown thrown)"
    by (simp add: detect_preprocess_thrown)
next
  assume "batched_tensor tf self inp = Inr batched" and "model self = None"
  then show "fst (detect tf self w inp t0 t1) = Inl TypeError"
    by (simp add: detect_unloaded)
next
  show "batched_tensor tf (dispose self) inp = batched_tensor tf self inp"
    by (rule batched_tensor_dispose)
next
  assume "model self = Some m"
  then show "model (dispose self) = Some (m\<lparr>disposed := True\<rparr>)"
    by (rule model_dispose)
next
  assume "model self = Some m"
    and "batched_tensor tf self inp = Inr batched"
    and "executeAsync tf (m\<lparr>disposed := True\<rparr>) batched = Inl thrown"
  then show "fst (detect tf (dispose self) w inp t0 t1) = Inl (Thrown thrown)"
    by (simp add: detect_rejected [where m = "m\<lparr>disposed := True\<rparr>" and batched = batched]
        model_dispose batched_tensor_dispose)
next
  assume "model self = Some m"
    and "batched_tensor tf self inp = Inr batched"
    and "executeAsync tf (m\<lparr>disposed := True\<rparr>) batched = Inr result"
    and "suppression tf self result = Inl thrown"
  then show "fst (detect tf (dispose self) w inp t0 t1) = Inl (Thrown thrown)"
    by (simp add: detect_suppression_thrown(1)
        [where m = "m\<lparr>disposed := True\<rparr>" and batched = batched and result = result]
        model_dispose batched_tensor_dispose suppression_dispose)
next
  assume "model self = Some m"
    and "batched_tensor tf self inp = Inr batched"
    and "executeAsync tf (m\<lparr>disposed := True\<rparr>) batched = Inr result"
    and "suppression tf self result = Inr selected"
  then show "fst (detect tf (dispose self) w inp t0 t1) =
               Inr (buildDetectedObjects (snd (getInputTensorDimensions inp))
                      (fst (getInputTensorDimensions inp)) (boxes_data result)
                      (scores_data result) selected
                      (snd (calculateMaxScores (scores_data result)
                              (fst (snd (scores_shape result)))
                              (snd (snd (scores_shape result))))))"
    by (simp add: detect_success_value(1)
        [where m = "m\<lparr>disposed := True\<rparr>" and batched = batched and result = result]
        model_dispose batched_tensor_dispose suppression_dispose)
qed

theorem detect_without_state_check_witness:
  "model unloaded0 = None
   \<and> batched_tensor tf0 unloaded0 tensor0 = Inl ''pixels''
   \<and> fst (detect tf0 unloaded0 world0 tensor0 0 40) = Inl (Thrown ''pixels'')
   \<and> batched_tensor tf0 unloaded0 frame0 = Inr [[[[Num 2], [Num 1]], [[Num 4], [Num 3]]]]
   \<and> fst (detect tf0 unloaded0 world0 frame0 0 40) = Inl TypeError
   \<and> model ready0 = Some \<lparr>disposed = False\<rparr>
   \<and> model (dispose ready0) = Some \<lparr>disposed = True\<rparr>
   \<and> batched_tensor tf0 ready0 frame0 = Inr [[[[Num 2], [Num 1]], [[Num 4], [Num 3]]]]
   \<and> executeAsync tf0 \<lparr>disposed = True\<rparr> [[[[Num 2], [Num 1]], [[Num 4], [Num 3]]]] =
       Inl ''disposed''
   \<and> fst (detect tf0 (dispose ready0) world0 frame0 0 40) = Inl (Thrown ''disposed'')
   \<and> batched_tensor tf_lenient ready0 frame0 = Inr [[[[Num 2], [Num 1]], [[Num 4], [Num 3]]]]
   \<and> executeAsync tf_lenient \<lparr>disposed = True\<rparr> [[[[Num 2], [Num 1]], [[Num 4], [Num 3]]]] =
       Inr inference0
   \<and> suppression tf_lenient ready0 inference0 = Inr [0]
   \<and> fst (detect tf_lenient (dispose ready0) world0 frame0 0 40) =
       Inr [\<lparr>bbox = [Num 0, Num 0, Num 25, Num 200], class_id = Some 0,
              score = Some (Num (255 / 256))\<rparr>]"
proof -
  have unloaded: "model unloaded0 = None"
    and refused: "batched_tensor tf0 unloaded0 tensor0 = Inl ''pixels''"
    and made: "batched_tensor tf0 unloaded0 frame0 = Inr [[[[Num 2], [Num 1]], [[Num 4], [Num 3]]]]"
    and ready: "model ready0 = Some \<lparr>disposed = False\<rparr>"
    and batched: "batched_tensor tf0 ready0 frame0 = Inr [[[[Num 2], [Num 1]], [[Num 4], [Num 3]]]]"
    by (simp_all add: fixture_facts)
  have thrown: "executeAsync tf0 (\<lparr>disposed = False\<rparr>\<lparr>disposed := True\<rparr>)
      [[[[Num 2], [Num 1]], [[Num 4], [Num 3]]]] = Inl ''disposed''"
    by (simp add: fixture_variants)
  have lenient: "batched_tensor tf_lenient ready0 frame0 =
      Inr [[[[Num 2], [Num 1]], [[Num 4], [Num 3]]]]"
    and answered: "executeAsync tf_lenient (\<lparr>disposed = False\<rparr>\<lparr>disposed := True\<rparr>)
      [[[[Num 2], [Num 1]], [[Num 4], [Num 3]]]] = Inr inference0"
    and selected: "suppression tf_lenient ready0 inference0 = Inr [0]"
    by (simp_all add: fixture_variants)
  have "fst (detect tf0 unloaded0 world0 tensor0 0 40) = Inl (Thrown ''pixels'')"
    using detect_without_state_check [of tf0 unloaded0 world0 tensor0 0 40 "''pixels''"] refused
    by blast
  moreover have "fst (detect tf0 unloaded0 world0 frame0 0 40) = Inl TypeError"
    using detect_without_state_check [of tf0 unloaded0 world0 frame0 0 40 _
        "[[[[Num 2], [Num 1]], [[Num 4], [Num 3]]]]"] unloaded made
    by blast
  moreover have "model (dispose ready0) = Some (\<lparr>disposed = False\<rparr>\<lparr>disposed := True\<rparr>)
      \<and> fst (detect tf0 (dispose ready0) world0 frame0 0 40) = Inl (Thrown ''disposed'')"
    using detect_without_state_check [of tf0 ready0 world0 frame0 0 40 "''disposed''"
        "[[[[Num 2], [Num 1]], [[Num 4], [Num 3]]]]" "\<lparr>disposed = False\<rparr>"] ready batched thrown
    by blast
  moreover have "fst (detect tf_lenient (dispose ready0) world0 frame0 0 40) =
      Inr (buildDetectedObjects (snd (getInputTensorDimensions frame0))
             (fst (getInputTensorDimensions frame0)) (boxes_data inference0)
             (scores_data inference0) [0]
             (snd (calculateMaxScores (scores_data inference0)
                     (fst (snd (scores_shape inference0)))
                     (snd (snd (scores_shape inference0))))))"
    using detect_without_state_check [of tf_lenient ready0 world0 frame0 0 40 _
        "[[[[Num 2], [Num 1]], [[Num 4], [Num 3]]]]" "\<lparr>disposed = False\<rparr>" inference0 "[0]"]
      ready lenient answered selected
    by blast
  then have "fst (detect tf_lenient (dispose ready0) world0 frame0 0 40) =
      Inr [\<lparr>bbox = [Num 0, Num 0, Num 25, Num 200], class_id = Some 0,
             score = Some (Num (255 / 256))\<rparr>]"
    by (simp only: objects_fixture)
  ultimately show ?thesis
    using unloaded refused made ready batched thrown lenient answered selected
    by simp
qed

text \<open>
  Claim C7 fails on the code.  When the inference is rejected, the function given to
  \<^verbatim>\<open>then\<close>, which holds the two calls of \<^verbatim>\<open>dispose\<close>, does not run, and nothing else
  releases the tensor \<^verbatim>\<open>batched\<close>: it is still live when \<^verbatim>\<open>detect\<close> has failed.  (On the
  path of success every tensor that \<^verbatim>\<open>detect\<close> allocated is released: lemma
  \<open>detect_success_world\<close>.)
\<close>

theorem detect_rejected_keeps_batched_tensor:
  "model ready0 = Some \<lparr>disposed = False\<rparr>
   \<and> live world0 = []
   \<and> detect tf_rejecting ready0 world0 frame0 0 40 =
       (Inl (Thrown ''rejected''), ready0, \<lparr>live = [0], fresh = 1, backend = ''tensorflow''\<rparr>)
   \<and> live (snd (snd (detect tf_rejecting ready0 world0 frame0 0 40))) = [0]"
  by (simp add: detect_rejected [where m = "\<lparr>disposed = False\<rparr>"
        and batched = "[[[[Num 2], [Num 1]], [[Num 4], [Num 3]]]]"] fixture_facts fixture_variants
      alloc_def world0_def)

text \<open>
  Claim C8.  With no class, the loop over the classes of a box does not run: the class of
  every box stays -1 and its maximum stays \<^verbatim>\<open>Number.MIN_VALUE\<close>, the value it was given
  before the loop, for every buffer of scores and every number of boxes.
  \<^verbatim>\<open>Number.MIN_VALUE\<close> is \<open>2\<close> to the power \<open>- 1074\<close>, the least positive number of binary64:
  it is its own rounding, and its half is rounded to 0.
\<close>

theorem calculateMaxScores_no_classes_keeps_start:
  "calculateMaxScores scores numBoxes 0 =
     (replicate numBoxes Number_MIN_VALUE, replicate numBoxes (- 1))
   \<and> Number_MIN_VALUE = Num (1 / 2 ^ 1074)
   \<and> binary64 (1 / 2 ^ 1074) = Number_MIN_VALUE
   \<and> binary64 (1 / 2 ^ 1075) = Num 0"
  by (simp add: calculateMaxScores_def class_loop_def map_replicate_const)
    (simp add: Number_MIN_VALUE_def binary64_eval)

text \<open>
  Claim C9, as stated, fails before \<^verbatim>\<open>load\<close>: the constructor does not assign
  \<^verbatim>\<open>fps\<close>, so \<^verbatim>\<open>getFPS\<close> on an object that was never loaded returns \<^verbatim>\<open>undefined\<close>
  and not 0.
\<close>

theorem getFPS_before_load_undefined:
  "getFPS unloaded0 = None \<and> getFPS unloaded0 \<noteq> Some (Num 0)"
  by (simp add: getFPS_def unloaded0_def new_ObjectDetection_def)

text \<open>
  Claim C9, amended.  On the object that a completed \<^verbatim>\<open>load\<close> returns, \<^verbatim>\<open>getFPS\<close> is 0;
  after a successful \<^verbatim>\<open>detect\<close> it is \<open>round(1000 / elapsedMs)\<close> for the elapsed time of
  that call; and a \<^verbatim>\<open>detect\<close> that fails leaves it as it was, so that it is the value
  of the most recent successful call.
\<close>

theorem getFPS_after_load_and_detect:
  "(load tf self w = Inr (self', w') \<longrightarrow> getFPS self' = Some (Num 0))
   \<and> (batched_tensor tf self inp = Inr batched \<longrightarrow>
        model self = Some m \<longrightarrow>
        executeAsync tf m batched = Inr result \<longrightarrow>
        suppression tf self result = Inr selected \<longrightarrow>
        getFPS (fst (snd (detect tf self w inp timeBegin timeEnd))) =
          Some (Math_round (js_div (Num 1000) (Num (of_int (timeEnd - timeBegin))))))
   \<and> (fst (detect tf self w inp timeBegin timeEnd) = Inl e \<longrightarrow>
        getFPS (fst (snd (detect tf self w inp timeBegin timeEnd))) = getFPS self)"
proof (intro conjI impI)
  assume "load tf self w = Inr (self', w')"
  then show "getFPS self' = Some (Num 0)"
    by (simp add: getFPS_def load_sets_fps)
next
  assume "batched_tensor tf self inp = Inr batched"
    and "model self = Some m"
    and "executeAsync tf m batched = Inr result"
    and "suppression tf self result = Inr selected"
  from detect_success_value(2) [OF this]
  show "getFPS (fst (snd (detect tf self w inp timeBegin timeEnd))) =
          Some (Math_round (js_div (Num 1000) (Num (of_int (timeEnd - timeBegin)))))"
    by (simp add: getFPS_def del: js_div.simps(1) Math_round.simps(1))
next
  assume "fst (detect tf self w inp timeBegin timeEnd) = Inl e"
  then show "getFPS (fst (snd (detect tf self w inp timeBegin timeEnd))) = getFPS self"
    by (simp add: detect_failure_keeps_object)
qed

theorem getFPS_after_load_and_detect_witness:
  "load tf0 unloaded0 world0 = Inr (ready0, \<lparr>live = [0], fresh = 3, backend = ''tensorflow''\<rparr>)
   \<and> getFPS ready0 = Some (Num 0)
   \<and> batched_tensor tf0 ready0 frame0 = Inr [[[[Num 2], [Num 1]], [[Num 4], [Num 3]]]]
   \<and> model ready0 = Some \<lparr>disposed = False\<rparr>
   \<and> executeAsync tf0 \<lparr>disposed = False\<rparr> [[[[Num 2], [Num 1]], [[Num 4], [Num 3]]]] =
       Inr inference0
   \<and> suppression tf0 ready0 inference0 = Inr [0]
   \<and> getFPS (fst (snd (detect tf0 ready0 world0 frame0 1000 1040))) = Some (Num 25)
   \<and> fst (detect tf_rejecting ready0 world0 frame0 1000 1040) = Inl (Thrown ''rejected'')
   \<and> getFPS (fst (snd (detect tf_rejecting ready0 world0 frame0 1000 1040))) = Some (Num 0)"
proof -
  have loaded: "load tf0 unloaded0 world0 =
      Inr (ready0, \<lparr>live = [0], fresh = 3, backend = ''tensorflow''\<rparr>)"
    by (rule load_fixture)
  have batched: "batched_tensor tf0 ready0 frame0 = Inr [[[[Num 2], [Num 1]], [[Num 4], [Num 3]]]]"
    and ready: "model ready0 = Some \<lparr>disposed = False\<rparr>"
    and inferred: "executeAsync tf0 \<lparr>disposed = False\<rparr> [[[[Num 2], [Num 1]], [[Num 4], [Num 3]]]] =
      Inr inference0"
    and selected: "suppression tf0 ready0 inference0 = Inr [0]"
    by (simp_all add: fixture_facts)
  have rejected: "fst (detect tf_rejecting ready0 world0 frame0 1000 1040) =
      Inl (Thrown ''rejected'')"
    by (simp add: detect_rejected [where m = "\<lparr>disposed = False\<rparr>"
          and batched = "[[[[Num 2], [Num 1]], [[Num 4], [Num 3]]]]"] fixture_facts
        fixture_variants)
  have zero: "getFPS ready0 = Some (Num 0)"
    using getFPS_after_load_and_detect [of tf0 unloaded0 world0 ready0
        "\<lparr>live = [0], fresh = 3, backend = ''tensorflow''\<rparr>" frame0
        "[[[[Num 2], [Num 1]], [[Num 4], [Num 3]]]]" "\<lparr>disposed = False\<rparr>"
        inference0 "[0]" 1000 1040 "Thrown ''x''"] loaded
    by blast
  have "getFPS (fst (snd (detect tf0 ready0 world0 frame0 1000 1040))) =
      Some (Math_round (js_div (Num 1000) (Num (of_int (1040 - 1000)))))"
    using getFPS_after_load_and_detect [of tf0 ready0 world0 ready0 world0 frame0
        "[[[[Num 2], [Num 1]], [[Num 4], [Num 3]]]]" "\<lparr>disposed = False\<rparr>"
        inference0 "[0]" 1000 1040 "Thrown ''x''"]
      batched ready inferred selected
    by blast
  then have fps: "getFPS (fst (snd (detect tf0 ready0 world0 frame0 1000 1040))) = Some (Num 25)"
    by (simp add: binary64_eval)
  have "getFPS (fst (snd (detect tf_rejecting ready0 world0 frame0 1000 1040))) = getFPS ready0"
    using getFPS_after_load_and_detect [of tf_rejecting ready0 world0 ready0 world0 frame0
        "[[[[Num 2], [Num 1]], [[Num 4], [Num 3]]]]" "\<lparr>disposed = False\<rparr>"
        inference0 "[0]" 1000 1040 "Thrown ''rejected''"]
      rejected
    by blast
  with zero have kept: "getFPS (fst (snd (detect tf_rejecting ready0 world0 frame0 1000 1040))) =
      Some (Num 0)"
    by simp
  show ?thesis
    using loaded zero batched ready inferred selected fps rejected kept by simp
qed

text \<open>
  Claim C10.  When the two readings of the clock of a successful \<^verbatim>\<open>detect\<close> are equal,
  the elapsed time is 0 and the value stored in \<^verbatim>\<open>fps\<close>, which \<^verbatim>\<open>getFPS\<close> returns, is
  \<open>Infinity\<close>.
\<close>

theorem detect_zero_elapsed_fps_Infinity:
  assumes "batched_tensor tf self inp = Inr batched"
    and "model self = Some m"
    and "executeAsync tf m batched = Inr result"
    and "suppression tf self result = Inr selected"
  shows "getFPS (fst (snd (detect tf self w inp t t))) = Some PosInfinity"
  using detect_success_value(2) [OF assms, of w t t]
  by (simp add: getFPS_def)

theorem detect_zero_elapsed_fps_Infinity_witness:
  "batched_tensor tf0 ready0 frame0 = Inr [[[[Num 2], [Num 1]], [[Num 4], [Num 3]]]]
   \<and> model ready0 = Some \<lparr>disposed = False\<rparr>
   \<and> executeAsync tf0 \<lparr>disposed = False\<rparr> [[[[Num 2], [Num 1]], [[Num 4], [Num 3]]]] =
       Inr inference0
   \<and> suppression tf0 ready0 inference0 = Inr [0]
   \<and> getFPS (fst (snd (detect tf0 ready0 world0 frame0 1700000000000 1700000000000))) =
       Some PosInfinity"
  using detect_zero_elapsed_fps_Infinity [of tf0 ready0 frame0
      "[[[[Num 2], [Num 1]], [[Num 4], [Num 3]]]]" "\<lparr>disposed = False\<rparr>" inference0
      "[0]" world0 1700000000000]
  by (simp add: fixture_facts)

end
